theory Spec2Isabelle
  imports Complex_Main "HOL-Library.AList"
begin

section \<open>JavaScript values and strings\<close>

text \<open>
  The values that travel through the extension as fields of a settings tuple are the
  strings the popup reads from its controls, \<open>null\<close> (the injector's initial cache and
  the reset path) and \<open>undefined\<close> (a field missing from a stored record). Numbers and
  nested objects could only enter through a hand-edited import file and are not part of
  this model. Strings are sequences of ASCII characters.
\<close>

datatype jsval = JUndefined | JNull | JStr string

text \<open>JavaScript truthiness (\<open>if (v)\<close>, \<open>a || b\<close>) on these values.\<close>

fun truthy :: "jsval \<Rightarrow> bool" where
  "truthy (JStr s) = (s \<noteq> [])"
| "truthy JNull = False"
| "truthy JUndefined = False"

text \<open>\<open>s.startsWith(p)\<close>.\<close>

definition startsWith :: "string \<Rightarrow> string \<Rightarrow> bool" where
  "startsWith s p = (take (length p) s = p)"

text \<open>\<open>s.trim()\<close> on ASCII: tab, line feed, vertical tab, form feed, carriage return, space.\<close>

definition isWhiteSpace :: "char \<Rightarrow> bool" where
  "isWhiteSpace c = (c \<in> set [CHR 0x09, CHR 0x0A, CHR 0x0B, CHR 0x0C, CHR 0x0D, CHR 0x20])"

definition trim :: "string \<Rightarrow> string" where
  "trim s = rev (dropWhile isWhiteSpace (rev (dropWhile isWhiteSpace s)))"

subsection \<open>Settings tuples, site records, the sync store\<close>

text \<open>The seven override fields, in the order in which popup.js builds its object.\<close>

record tuple7 =
  font :: jsval
  direction :: jsval
  fontSize :: jsval
  lineHeight :: jsval
  fontWeight :: jsval
  letterSpacing :: jsval
  wordSpacing :: jsval

text \<open>A stored site record: the tuple and the denormalised \<open>host\<close>.\<close>

record siteSettings = tuple7 +
  host :: jsval

text \<open>
  A value of \<open>browser.storage.sync\<close>: a site record under a hostname key, or a plain
  string under one of the global keys (\<open>theme\<close>, \<open>uiFont\<close>, \<open>extensionLanguage\<close>).
\<close>

datatype stored = Site siteSettings | Plain string

type_synonym syncStore = "string \<rightharpoonup> stored"

text \<open>The two commands the Style Injector accepts; \<open>applyStyles\<close> spreads a record.\<close>

datatype message = ApplyStyles siteSettings | ResetStyles

definition withHost :: "tuple7 \<Rightarrow> jsval \<Rightarrow> siteSettings" where
  "withHost t h = \<lparr>font = font t, direction = direction t, fontSize = fontSize t,
     lineHeight = lineHeight t, fontWeight = fontWeight t,
     letterSpacing = letterSpacing t, wordSpacing = wordSpacing t, host = h\<rparr>"

definition tupleOf :: "siteSettings \<Rightarrow> tuple7" where
  "tupleOf r = \<lparr>font = font r, direction = direction r, fontSize = fontSize r,
     lineHeight = lineHeight r, fontWeight = fontWeight r,
     letterSpacing = letterSpacing r, wordSpacing = wordSpacing r\<rparr>"


text \<open>\<open>s.includes(p)\<close>: \<open>p\<close> occurs in \<open>s\<close> as a contiguous substring.\<close>

fun strIncludes :: "string \<Rightarrow> string \<Rightarrow> bool" where
  "strIncludes [] p = (p = [])"
| "strIncludes (c # s) p = (startsWith (c # s) p \<or> strIncludes s p)"

text \<open>\<open>toLowerCase\<close> and \<open>toUpperCase\<close> on ASCII letters.\<close>

definition asciiLower :: "char \<Rightarrow> char" where
  "asciiLower c =
     (case map_of (zip ''ABCDEFGHIJKLMNOPQRSTUVWXYZ'' ''abcdefghijklmnopqrstuvwxyz'') c of
        Some d \<Rightarrow> d | None \<Rightarrow> c)"

definition asciiUpper :: "char \<Rightarrow> char" where
  "asciiUpper c =
     (case map_of (zip ''abcdefghijklmnopqrstuvwxyz'' ''ABCDEFGHIJKLMNOPQRSTUVWXYZ'') c of
        Some d \<Rightarrow> d | None \<Rightarrow> c)"

text \<open>
  \<open>text.replace(pattern, replacement)\<close> with a string pattern: the first occurrence is
  replaced, and in the replacement \<open>$$\<close> stands for a dollar sign, \<open>$&\<close> for the matched
  text, \<open>$`\<close> for the text before the match and \<open>$'\<close> for the text after it.
\<close>

fun findSplit :: "string \<Rightarrow> string \<Rightarrow> (string \<times> string) option" where
  "findSplit p [] = (if p = [] then Some ([], []) else None)"
| "findSplit p (c # s) =
     (if startsWith (c # s) p then Some ([], drop (length p) (c # s))
      else map_option (\<lambda>(b, a). (c # b, a)) (findSplit p s))"

fun getSubstitution :: "string \<Rightarrow> string \<Rightarrow> string \<Rightarrow> string \<Rightarrow> string" where
  "getSubstitution m b a [] = []"
| "getSubstitution m b a [c] = [c]"
| "getSubstitution m b a (c # d # r) =
     (if c = CHR ''$'' \<and> d = CHR ''$'' then CHR ''$'' # getSubstitution m b a r
      else if c = CHR ''$'' \<and> d = CHR ''&'' then m @ getSubstitution m b a r
      else if c = CHR ''$'' \<and> d = CHR 0x60 then b @ getSubstitution m b a r
      else if c = CHR ''$'' \<and> d = CHR 0x27 then a @ getSubstitution m b a r
      else c # getSubstitution m b a (d # r))"

definition jsReplace :: "string \<Rightarrow> string \<Rightarrow> string \<Rightarrow> string" where
  "jsReplace text p replacement =
     (case findSplit p text of
        None \<Rightarrow> text
      | Some (b, a) \<Rightarrow> b @ getSubstitution p b a replacement @ a)"

section \<open>popup.js\<close>

subsection \<open>saveAndApplySettings\<close>

text \<open>
  A browser tab as \<open>browser.tabs.query\<close> returns it: \<open>id\<close> and \<open>url\<close> are both
  optional properties.
\<close>

record tab =
  tabId :: "nat option"
  tabUrl :: "string option"

text \<open>
  What the popup's environment answers during one call: the active tab
  (\<open>getCurrentTab\<close>, \<open>None\<close> for \<open>null\<close> or no tab), whether
  \<open>browser.storage.sync.set\<close> rejects and whether \<open>browser.tabs.sendMessage\<close>
  rejects, each with the error's message.
\<close>

record popupEnv =
  currentTab :: "tab option"
  setRejects :: "string option"
  sendRejects :: "string option"

text \<open>The calls the popup makes on its collaborators, in order.\<close>

datatype effect =
    StorageSet string siteSettings
  | SendMessage nat message
  | ConsoleError string
  | ConsoleWarn string

text \<open>
  \<open>saveAndApplySettings\<close>. The platform's URL parser is the parameter \<open>hostnameOf\<close>:
  \<open>hostnameOf u\<close> is \<open>new URL(u).hostname\<close>, \<open>None\<close> when the constructor throws.
  The result is the list of calls made and the store afterwards.
\<close>

definition saveAndApplySettings ::
  "(string \<Rightarrow> string option) \<Rightarrow> popupEnv \<Rightarrow> tuple7 \<Rightarrow> syncStore \<Rightarrow> effect list \<times> syncStore" where
  "saveAndApplySettings hostnameOf env t store =
     (case currentTab env of
        None \<Rightarrow> ([], store)
      | Some tb \<Rightarrow>
         (case tabUrl tb of
            None \<Rightarrow> ([], store)
          | Some u \<Rightarrow>
             if u = [] \<or> startsWith u ''chrome://'' \<or> startsWith u ''about:''
                \<or> startsWith u ''edge://''
             then ([], store)
             else
               (case hostnameOf u of
                  None \<Rightarrow> ([], store)
                | Some hostname \<Rightarrow>
                   let settings = withHost t (JStr hostname) in
                   (case setRejects env of
                      Some e \<Rightarrow> ([StorageSet hostname settings, ConsoleError ''Error saving settings:''], store)
                    | None \<Rightarrow>
                       let store' = store(hostname \<mapsto> Site settings) in
                       (case tabId tb of
                          None \<Rightarrow> ([StorageSet hostname settings], store')
                        | Some i \<Rightarrow>
                           if i = 0 then ([StorageSet hostname settings], store')
                           else
                             (case sendRejects env of
                                None \<Rightarrow>
                                  ([StorageSet hostname settings,
                                    SendMessage i (ApplyStyles settings)], store')
                              | Some m \<Rightarrow>
                                  ([StorageSet hostname settings,
                                    SendMessage i (ApplyStyles settings),
                                    ConsoleWarn (''Could not send message to content script: '' @ m)],
                                   store')))))))"

subsection \<open>Numbers\<close>

text \<open>
  JavaScript numbers, idealised: the finite ones are exact rationals (no binary rounding),
  with the two infinities and NaN. \<open>parseFloat\<close> is a parameter of the handlers below.
\<close>

datatype jsnum = NaN | NegInf | Fin rat | PosInf

fun jsLess :: "jsnum \<Rightarrow> jsnum \<Rightarrow> bool" where
  "jsLess NaN _ = False"
| "jsLess _ NaN = False"
| "jsLess NegInf NegInf = False"
| "jsLess NegInf _ = True"
| "jsLess (Fin x) (Fin y) = (x < y)"
| "jsLess (Fin x) PosInf = True"
| "jsLess (Fin x) NegInf = False"
| "jsLess PosInf _ = False"

fun jsAdd :: "jsnum \<Rightarrow> jsnum \<Rightarrow> jsnum" where
  "jsAdd NaN _ = NaN"
| "jsAdd _ NaN = NaN"
| "jsAdd PosInf NegInf = NaN"
| "jsAdd NegInf PosInf = NaN"
| "jsAdd PosInf _ = PosInf"
| "jsAdd _ PosInf = PosInf"
| "jsAdd NegInf _ = NegInf"
| "jsAdd _ NegInf = NegInf"
| "jsAdd (Fin x) (Fin y) = Fin (x + y)"

fun jsNeg :: "jsnum \<Rightarrow> jsnum" where
  "jsNeg NaN = NaN"
| "jsNeg NegInf = PosInf"
| "jsNeg PosInf = NegInf"
| "jsNeg (Fin x) = Fin (- x)"

text \<open>\<open>Math.round\<close>: to the nearest integer, a tie towards plus infinity.\<close>

fun mathRound :: "jsnum \<Rightarrow> jsnum" where
  "mathRound (Fin x) = Fin (of_int \<lfloor>x + 1 / 2\<rfloor>)"
| "mathRound n = n"

text \<open>
  \<open>parseFloat(x.toFixed(2))\<close>: \<open>toFixed(2)\<close> rounds the magnitude to the nearest
  hundredth, a tie upwards, and keeps the sign; from \<open>10^21\<close> on, and on the infinities
  and NaN, \<open>toFixed\<close> prints the number as \<open>String\<close> does and \<open>parseFloat\<close> reads it
  back unchanged.
\<close>

fun toFixed2 :: "jsnum \<Rightarrow> jsnum" where
  "toFixed2 (Fin x) =
     (if \<bar>x\<bar> \<ge> 10 ^ 21 then Fin x
      else Fin ((if x < 0 then - 1 else 1) * of_int \<lfloor>\<bar>x\<bar> * 100 + 1 / 2\<rfloor> / 100))"
| "toFixed2 n = n"

text \<open>Decimal digits of a natural number.\<close>

definition digitChar :: "nat \<Rightarrow> char" where
  "digitChar d = ''0123456789'' ! d"

fun showNat :: "nat \<Rightarrow> string" where
  "showNat n = (if n < 10 then [digitChar n] else showNat (n div 10) @ [digitChar (n mod 10)])"

declare showNat.simps [simp del]

text \<open>
  \<open>String(n)\<close>, as assigning a number to \<open>input.value\<close> performs it. The finite case
  prints the integer part and at most two decimals without trailing zeros, which is
  what JavaScript prints for the multiples of a hundredth below \<open>10^21\<close>: every call
  site below passes the result of \<open>mathRound\<close> or \<open>toFixed2\<close> on a clamped value.
\<close>

fun numToString :: "jsnum \<Rightarrow> string" where
  "numToString NaN = ''NaN''"
| "numToString PosInf = ''Infinity''"
| "numToString NegInf = ''-Infinity''"
| "numToString (Fin x) =
     (let h = nat \<lfloor>\<bar>x\<bar> * 100\<rfloor>; w = h div 100; f = h mod 100 in
      (if x < 0 \<and> h \<noteq> 0 then ''-'' else []) @ showNat w @
      (if f = 0 then []
       else ''.'' @ [digitChar (f div 10)] @ (if f mod 10 = 0 then [] else [digitChar (f mod 10)])))"

subsection \<open>Controls and their configuration\<close>

datatype numberField = FontSizeInput | LineHeightInput | LetterSpacingInput | WordSpacingInput

text \<open>\<open>numberInputConfig\<close>: every \<open>default\<close> is the empty string.\<close>

fun cfgMin :: "numberField \<Rightarrow> rat" where
  "cfgMin FontSizeInput = 8"
| "cfgMin LineHeightInput = 8 / 10"
| "cfgMin LetterSpacingInput = - 5"
| "cfgMin WordSpacingInput = - 10"

fun cfgMax :: "numberField \<Rightarrow> rat" where
  "cfgMax FontSizeInput = 72"
| "cfgMax LineHeightInput = 3"
| "cfgMax LetterSpacingInput = 10"
| "cfgMax WordSpacingInput = 30"

fun cfgStep :: "numberField \<Rightarrow> rat" where
  "cfgStep FontSizeInput = 1"
| "cfgStep LineHeightInput = 1 / 10"
| "cfgStep LetterSpacingInput = 1 / 10"
| "cfgStep WordSpacingInput = 1 / 2"

definition cfgDefault :: "numberField \<Rightarrow> string" where
  "cfgDefault f = []"

text \<open>The popup's controls: the \<open>value\<close> of each input and select, the \<open>active\<close> class of each direction button.\<close>

record controls =
  fontSelect :: string
  fontWeightSelect :: string
  btnRtlActive :: bool
  btnLtrActive :: bool
  fontSizeInput :: string
  lineHeightInput :: string
  letterSpacingInput :: string
  wordSpacingInput :: string

fun inputValue :: "numberField \<Rightarrow> controls \<Rightarrow> string" where
  "inputValue FontSizeInput c = fontSizeInput c"
| "inputValue LineHeightInput c = lineHeightInput c"
| "inputValue LetterSpacingInput c = letterSpacingInput c"
| "inputValue WordSpacingInput c = wordSpacingInput c"

fun setInputValue :: "numberField \<Rightarrow> string \<Rightarrow> controls \<Rightarrow> controls" where
  "setInputValue FontSizeInput v c = c\<lparr>fontSizeInput := v\<rparr>"
| "setInputValue LineHeightInput v c = c\<lparr>lineHeightInput := v\<rparr>"
| "setInputValue LetterSpacingInput v c = c\<lparr>letterSpacingInput := v\<rparr>"
| "setInputValue WordSpacingInput v c = c\<lparr>wordSpacingInput := v\<rparr>"

definition getCurrentSelectedDirection :: "controls \<Rightarrow> string" where
  "getCurrentSelectedDirection c =
     (if btnRtlActive c then ''rtl'' else if btnLtrActive c then ''ltr'' else [])"

definition updateDirectionButtonsVisualState :: "string \<Rightarrow> controls \<Rightarrow> controls" where
  "updateDirectionButtonsVisualState activeDirection c =
     c\<lparr>btnRtlActive := (activeDirection = ''rtl''), btnLtrActive := (activeDirection = ''ltr'')\<rparr>"

definition getCurrentUISettings :: "controls \<Rightarrow> tuple7" where
  "getCurrentUISettings c =
     \<lparr>font = JStr (fontSelect c),
      direction = JStr (getCurrentSelectedDirection c),
      fontSize = JStr (trim (fontSizeInput c)),
      lineHeight = JStr (trim (lineHeightInput c)),
      fontWeight = JStr (fontWeightSelect c),
      letterSpacing = JStr (trim (letterSpacingInput c)),
      wordSpacing = JStr (trim (wordSpacingInput c))\<rparr>"

text \<open>The clamp of the stepper and of the change listener: two independent comparisons.\<close>

definition clampTo :: "numberField \<Rightarrow> jsnum \<Rightarrow> jsnum" where
  "clampTo f n =
     (let n1 = (if jsLess n (Fin (cfgMin f)) then Fin (cfgMin f) else n)
      in if jsLess (Fin (cfgMax f)) n1 then Fin (cfgMax f) else n1)"

definition roundFor :: "numberField \<Rightarrow> jsnum \<Rightarrow> jsnum" where
  "roundFor f n = (if f = FontSizeInput then mathRound n else toFixed2 n)"

text \<open>
  The body of the \<open>change\<close> listener of a number input, up to the new value of the
  input: \<open>parseFloat\<close> is the parameter \<open>pf\<close>.
\<close>

definition changeCommit :: "(string \<Rightarrow> jsnum) \<Rightarrow> numberField \<Rightarrow> controls \<Rightarrow> controls" where
  "changeCommit pf f c =
     (let numericValue = pf (trim (inputValue f c)) in
      if numericValue = NaN \<or> trim (inputValue f c) = []
      then setInputValue f (cfgDefault f) c
      else setInputValue f (numToString (roundFor f (clampTo f numericValue))) c)"

text \<open>
  The body of the click listener of a stepper button, up to the new value of the input.
  \<open>up\<close> is the class \<open>stepper-up\<close>, \<open>dataStep\<close> the button's \<open>data-step\<close> attribute.
\<close>

definition stepperValue :: "(string \<Rightarrow> jsnum) \<Rightarrow> numberField \<Rightarrow> bool \<Rightarrow> string option \<Rightarrow> controls \<Rightarrow> controls" where
  "stepperValue pf f up dataStep c =
     (let parsedStep = (case dataStep of None \<Rightarrow> NaN | Some s \<Rightarrow> pf s);
          step = (if parsedStep = NaN \<or> parsedStep = Fin 0 then Fin (cfgStep f) else parsedStep);
          parsed = pf (trim (inputValue f c));
          baseValue = (if f = FontSizeInput then Fin 16 else Fin 0);
          currentValue =
            (if parsed = NaN \<or> trim (inputValue f c) = []
             then (if up then jsAdd baseValue (jsNeg step) else jsAdd baseValue step)
             else parsed);
          stepped = jsAdd currentValue (if up then step else jsNeg step)
      in setInputValue f (numToString (roundFor f (clampTo f stepped))) c)"

text \<open>
  A user edit, as the listener that \<open>addEventListeners\<close> registered for it sees it.
  For \<open>NumberInput\<close> and the two select changes the browser has stored the new text
  in the control before the listener runs.
\<close>

datatype uiEvent =
    StepperClick numberField bool "string option"
  | NumberInput numberField string
  | NumberChange numberField
  | FontSelectChange string
  | FontWeightSelectChange string
  | BtnRtlClick
  | BtnLtrClick
  | ResetClick

text \<open>
  The state of the controls when the listener reaches its call of
  \<open>saveAndApplySettings\<close>. A change of the font rebuilds the weight selector with the
  font's default weight, which is the empty string for every font of
  \<open>fontsWithWeightSupport\<close>; the reset button restores every default.
\<close>

fun controlsAfter :: "(string \<Rightarrow> jsnum) \<Rightarrow> uiEvent \<Rightarrow> controls \<Rightarrow> controls" where
  "controlsAfter pf (StepperClick f up dataStep) c = stepperValue pf f up dataStep c"
| "controlsAfter pf (NumberInput f text) c = setInputValue f text c"
| "controlsAfter pf (NumberChange f) c = changeCommit pf f c"
| "controlsAfter pf (FontSelectChange v) c = c\<lparr>fontSelect := v, fontWeightSelect := []\<rparr>"
| "controlsAfter pf (FontWeightSelectChange w) c = c\<lparr>fontWeightSelect := w\<rparr>"
| "controlsAfter pf BtnRtlClick c =
     updateDirectionButtonsVisualState
       (if getCurrentSelectedDirection c \<noteq> ''rtl'' then ''rtl'' else []) c"
| "controlsAfter pf BtnLtrClick c =
     updateDirectionButtonsVisualState
       (if getCurrentSelectedDirection c \<noteq> ''ltr'' then ''ltr'' else []) c"
| "controlsAfter pf ResetClick c =
     updateDirectionButtonsVisualState []
       (c\<lparr>fontSelect := [], fontWeightSelect := [],
          fontSizeInput := cfgDefault FontSizeInput,
          lineHeightInput := cfgDefault LineHeightInput,
          letterSpacingInput := cfgDefault LetterSpacingInput,
          wordSpacingInput := cfgDefault WordSpacingInput\<rparr>)"

text \<open>
  The tuple the listener passes to \<open>saveAndApplySettings\<close>: the direction buttons pass
  the direction they computed, the reset button seven empty strings, every other
  listener the fields of \<open>getCurrentUISettings()\<close>.
\<close>

fun savedTuple :: "(string \<Rightarrow> jsnum) \<Rightarrow> uiEvent \<Rightarrow> controls \<Rightarrow> tuple7" where
  "savedTuple pf BtnRtlClick c =
     (getCurrentUISettings (controlsAfter pf BtnRtlClick c))
       \<lparr>direction := JStr (if getCurrentSelectedDirection c \<noteq> ''rtl'' then ''rtl'' else [])\<rparr>"
| "savedTuple pf BtnLtrClick c =
     (getCurrentUISettings (controlsAfter pf BtnLtrClick c))
       \<lparr>direction := JStr (if getCurrentSelectedDirection c \<noteq> ''ltr'' then ''ltr'' else [])\<rparr>"
| "savedTuple pf ResetClick c =
     \<lparr>font = JStr [], direction = JStr [], fontSize = JStr [], lineHeight = JStr [],
      fontWeight = JStr [], letterSpacing = JStr [], wordSpacing = JStr []\<rparr>"
| "savedTuple pf ev c = getCurrentUISettings (controlsAfter pf ev c)"

text \<open>One user edit: the controls afterwards, the calls made, the store afterwards.\<close>

definition onUserEdit ::
  "(string \<Rightarrow> jsnum) \<Rightarrow> (string \<Rightarrow> string option) \<Rightarrow> popupEnv \<Rightarrow> uiEvent \<Rightarrow> controls \<Rightarrow> syncStore
     \<Rightarrow> controls \<times> effect list \<times> syncStore" where
  "onUserEdit pf hostnameOf env ev c store =
     (controlsAfter pf ev c, saveAndApplySettings hostnameOf env (savedTuple pf ev c) store)"

subsection \<open>Vocabulary of the popup's properties\<close>

text \<open>The numeric field of a tuple that belongs to a number input.\<close>

fun fieldOf :: "numberField \<Rightarrow> tuple7 \<Rightarrow> jsval" where
  "fieldOf FontSizeInput t = fontSize t"
| "fieldOf LineHeightInput t = lineHeight t"
| "fieldOf LetterSpacingInput t = letterSpacing t"
| "fieldOf WordSpacingInput t = wordSpacing t"

text \<open>
  The situations in which \<open>saveAndApplySettings\<close> returns before its first side effect:
  no active tab, no URL (undefined or empty), a URL that starts with \<open>chrome://\<close>,
  \<open>about:\<close> or \<open>edge://\<close>, a URL the parser rejects.
\<close>

definition noUsableTab :: "(string \<Rightarrow> string option) \<Rightarrow> popupEnv \<Rightarrow> bool" where
  "noUsableTab hostnameOf env =
     (case currentTab env of
        None \<Rightarrow> True
      | Some tb \<Rightarrow>
         (case tabUrl tb of
            None \<Rightarrow> True
          | Some u \<Rightarrow> u = [] \<or> startsWith u ''chrome://'' \<or> startsWith u ''about:''
                      \<or> startsWith u ''edge://'' \<or> hostnameOf u = None))"

fun isStorageSet :: "effect \<Rightarrow> bool" where
  "isStorageSet (StorageSet k r) = True"
| "isStorageSet _ = False"

fun isSendMessage :: "effect \<Rightarrow> bool" where
  "isSendMessage (SendMessage i m) = True"
| "isSendMessage _ = False"

subsection \<open>Concrete inputs\<close>

text \<open>
  Stand-ins for the platform's parsers on the inputs of the examples below: the hostname
  of a plain \<open>http(s)://host/path\<close> URL, and \<open>parseFloat\<close> on a few literals.
\<close>

definition demoHostname :: "string \<Rightarrow> string option" where
  "demoHostname u =
     (if startsWith u ''https://'' then Some (takeWhile (\<lambda>c. c \<noteq> CHR ''/'') (drop 8 u))
      else if startsWith u ''http://'' then Some (takeWhile (\<lambda>c. c \<noteq> CHR ''/'') (drop 7 u))
      else None)"

definition demoParse :: "string \<Rightarrow> jsnum" where
  "demoParse s =
     (if s = ''500'' then Fin 500 else if s = ''18'' then Fin 18
      else if s = ''1.256'' then Fin (1256 / 1000) else NaN)"

definition demoControls :: controls where
  "demoControls = \<lparr>fontSelect = ''Vazirmatn'', fontWeightSelect = ''400'', btnRtlActive = True,
     btnLtrActive = False, fontSizeInput = ''18'', lineHeightInput = [],
     letterSpacingInput = [], wordSpacingInput = []\<rparr>"

definition demoEnv :: "string \<Rightarrow> popupEnv" where
  "demoEnv u = \<lparr>currentTab = Some \<lparr>tabId = Some 7, tabUrl = Some u\<rparr>,
     setRejects = None, sendRejects = None\<rparr>"

section \<open>settings.js\<close>

text \<open>
  The settings page enumerates the whole store, so here the store is the list of its
  entries, as \<open>Object.entries\<close> of \<open>storageArea.get(null)\<close> gives them; \<open>map_of\<close> is
  the lookup. The page never looks inside a value: its type is a parameter.
\<close>

type_synonym 'v entries = "(string \<times> 'v) list"

text \<open>
  What \<open>JSON.parse\<close> returns when it does not throw: an object, with its entries, or
  any other JSON value. The parser itself is a parameter \<open>parse\<close> of the import, with
  \<open>Inl\<close> of the message for a \<open>SyntaxError\<close>; \<open>JSON.stringify\<close> is the parameter
  \<open>stringify\<close> of the export.
\<close>

datatype 'v jsonDoc = DocObject "'v entries" | DocOther

text \<open>
  \<open>importStatusMessageElement\<close>: its text and its class. The timer that hides the
  message again is not modelled.
\<close>

record statusElement =
  statusText :: string
  statusClass :: string

text \<open>
  The settings page and its collaborators: the sync store, the translations loaded
  by the i18n manager (\<open>window.currentTranslations\<close>, \<open>None\<close> when undefined), the
  status element (\<open>None\<close> when the page has none), the files handed to the browser as
  downloads, the \<open>set\<close> calls issued, and whether \<open>location.reload()\<close> was called.
\<close>

record ('v, 't) settingsPage =
  storeEntries :: "'v entries"
  currentTranslations :: "(string \<rightharpoonup> string) option"
  importStatusMessageElement :: "statusElement option"
  downloads :: "(string \<times> 't) list"
  setCalls :: "'v jsonDoc list"
  reloaded :: bool

text \<open>Whether the next \<open>storageArea.get\<close> and \<open>storageArea.set\<close> reject, and with which message.\<close>

record storageFaults =
  getFault :: "string option"
  setFault :: "string option"

definition EXPORT_FILE_NAME :: string where
  "EXPORT_FILE_NAME = ''font_changer_settings_backup.json''"

definition getLocalizedText :: "(string \<rightharpoonup> string) option \<Rightarrow> string \<Rightarrow> string \<Rightarrow> string" where
  "getLocalizedText tr key fallback =
     (case tr of
        None \<Rightarrow> fallback
      | Some m \<Rightarrow> (case m key of None \<Rightarrow> fallback | Some t \<Rightarrow> if t = [] then fallback else t))"

text \<open>The loop of \<open>displayStatusMessage\<close> over the placeholders.\<close>

fun fillPlaceholders :: "string \<Rightarrow> (string \<times> string) list \<Rightarrow> string" where
  "fillPlaceholders text [] = text"
| "fillPlaceholders text ((p, v) # ps) =
     fillPlaceholders (jsReplace text (''$'' @ map asciiUpper p @ ''$'') v) ps"

definition displayStatusMessage ::
  "string \<Rightarrow> string \<Rightarrow> (string \<times> string) list \<Rightarrow> ('v, 't) settingsPage \<Rightarrow> ('v, 't) settingsPage" where
  "displayStatusMessage key type placeholders pg =
     (case importStatusMessageElement pg of
        None \<Rightarrow> pg
      | Some el \<Rightarrow>
          pg\<lparr>importStatusMessageElement :=
               Some \<lparr>statusText =
                        fillPlaceholders (getLocalizedText (currentTranslations pg) key key) placeholders,
                     statusClass = ''status-message visible '' @ type\<rparr>\<rparr>)"

text \<open>The filter of \<open>handleExportSettings\<close>: site records and the three global keys.\<close>

definition isExportedKey :: "string \<Rightarrow> bool" where
  "isExportedKey key =
     (CHR ''.'' \<in> set key \<or> key \<in> set [''uiFont'', ''theme'', ''extensionLanguage''])"

definition exportData :: "'v entries \<Rightarrow> 'v entries" where
  "exportData data = filter (\<lambda>(key, v). isExportedKey key) data"

definition handleExportSettings ::
  "('v entries \<Rightarrow> 't) \<Rightarrow> storageFaults \<Rightarrow> ('v, 't) settingsPage \<Rightarrow> ('v, 't) settingsPage" where
  "handleExportSettings stringify env pg =
     (case getFault env of
        Some e \<Rightarrow> displayStatusMessage ''exportErrorMessage'' ''error'' [] pg
      | None \<Rightarrow>
          if exportData (storeEntries pg) = []
          then displayStatusMessage ''exportNoSettingsMessage'' [] [] pg
          else displayStatusMessage ''exportSuccessMessage'' ''success'' []
                 (pg\<lparr>downloads := downloads pg
                        @ [(EXPORT_FILE_NAME, stringify (exportData (storeEntries pg)))]\<rparr>))"

text \<open>
  \<open>storageArea.set(items)\<close>: every entry of an object replaces or adds its key, the
  other keys stay; anything that is not an object is refused with an error.
\<close>

definition storageSet :: "storageFaults \<Rightarrow> 'v jsonDoc \<Rightarrow> 'v entries \<Rightarrow> string + 'v entries" where
  "storageSet env doc st =
     (case doc of
        DocOther \<Rightarrow> Inl ''Invalid type: expected object''
      | DocObject items \<Rightarrow>
          (case setFault env of Some e \<Rightarrow> Inl e | None \<Rightarrow> Inr (AList.merge st items)))"

text \<open>
  \<open>handleImportSettings\<close>, for the file the user chose (\<open>None\<close>: no file) with its text
  already read.
\<close>

definition handleImportSettings ::
  "('t \<Rightarrow> string + 'v jsonDoc) \<Rightarrow> storageFaults \<Rightarrow> 't option \<Rightarrow> ('v, 't) settingsPage \<Rightarrow> ('v, 't) settingsPage" where
  "handleImportSettings parse env file pg =
     (case file of
        None \<Rightarrow> pg
      | Some text \<Rightarrow>
          (case parse text of
             Inl message \<Rightarrow>
               displayStatusMessage ''importErrorMessage'' ''error'' [(''ERROR'', message)] pg
           | Inr settings \<Rightarrow>
               (case storageSet env settings (storeEntries pg) of
                  Inl message \<Rightarrow>
                    displayStatusMessage ''importErrorMessage'' ''error'' [(''ERROR'', message)]
                      (pg\<lparr>setCalls := setCalls pg @ [settings]\<rparr>)
                | Inr st \<Rightarrow>
                    pg\<lparr>storeEntries := st, setCalls := setCalls pg @ [settings], reloaded := True\<rparr>)))"

subsection \<open>Concrete inputs\<close>

definition demoSite :: siteSettings where
  "demoSite = \<lparr>font = JStr ''Vazirmatn'', direction = JStr ''rtl'', fontSize = JStr ''18'',
     lineHeight = JStr [], fontWeight = JStr [], letterSpacing = JStr [],
     wordSpacing = JStr [], host = JStr ''example.com''\<rparr>"

definition demoStore :: "stored entries" where
  "demoStore = [(''example.com'', Site demoSite), (''theme'', Plain ''dark''),
     (''localhost'', Site (demoSite\<lparr>host := JStr ''localhost''\<rparr>))]"

definition demoPage :: "stored entries \<Rightarrow> (stored, 't) settingsPage" where
  "demoPage st = \<lparr>storeEntries = st,
     currentTranslations = Some [''importErrorMessage'' \<mapsto> ''Import failed: $ERROR$''],
     importStatusMessageElement = Some \<lparr>statusText = [], statusClass = ''status-message''\<rparr>,
     downloads = [], setCalls = [], reloaded = False\<rparr>"

definition noFaults :: storageFaults where
  "noFaults = \<lparr>getFault = None, setFault = None\<rparr>"

text \<open>A document represented by its own entries: printing and parsing change nothing.\<close>

definition demoStringify :: "stored entries \<Rightarrow> stored entries" where
  "demoStringify d = d"

definition demoRead :: "stored entries \<Rightarrow> string + stored jsonDoc" where
  "demoRead t = Inr (DocObject t)"

text \<open>
  \<open>JSON.parse\<close> on the text \<open>$'x\<close>, with the message that V8 gives the \<open>SyntaxError\<close>;
  every other text is read as an empty object.
\<close>

definition dollarFile :: string where
  "dollarFile = [CHR ''$'', CHR 0x27, CHR ''x'']"

definition dollarMessage :: string where
  "dollarMessage =
     ''Unexpected token '' @ [CHR 0x27, CHR ''$'', CHR 0x27] @ '', ''
       @ [CHR 0x22, CHR ''$'', CHR 0x27, CHR ''x'', CHR 0x22] @ '' is not valid JSON''"

definition dollarParse :: "string \<Rightarrow> string + stored jsonDoc" where
  "dollarParse t = (if t = dollarFile then Inl dollarMessage else Inr (DocObject []))"

section \<open>runtime.js: the listener of tabs.onUpdated\<close>


text \<open>Truthiness of a stored value, and the properties the listener reads from it.\<close>

fun storedTruthy :: "stored \<Rightarrow> bool" where
  "storedTruthy (Site r) = True"
| "storedTruthy (Plain s) = (s \<noteq> [])"






section \<open>content.js: the page\<close>

text \<open>
  The page is its element tree. An element has an identity (the object reference that
  the script holds and compares; no two elements of a page share one), a tag name, its
  attributes in order, its child nodes and, when a shadow root is attached and open, the
  child nodes of that shadow root (\<open>element.shadowRoot\<close> is \<open>null\<close> otherwise, also for
  a closed shadow root).
\<close>

type_synonym attrs = "(string \<times> string) list"

datatype node =
    TextNode string
  | Element nat string attrs "node list" "node list option"

fun isElement :: "node \<Rightarrow> bool" where
  "isElement (Element i t a cs sh) = True"
| "isElement (TextNode s) = False"

fun nidOf :: "node \<Rightarrow> nat" where
  "nidOf (Element i t a cs sh) = i"
| "nidOf (TextNode s) = 0"

fun tagName :: "node \<Rightarrow> string" where
  "tagName (Element i t a cs sh) = t"
| "tagName (TextNode s) = []"

fun attributes :: "node \<Rightarrow> attrs" where
  "attributes (Element i t a cs sh) = a"
| "attributes (TextNode s) = []"

fun childNodes :: "node \<Rightarrow> node list" where
  "childNodes (Element i t a cs sh) = cs"
| "childNodes (TextNode s) = []"

fun shadowRoot :: "node \<Rightarrow> node list option" where
  "shadowRoot (Element i t a cs sh) = sh"
| "shadowRoot (TextNode s) = None"

definition isHost :: "node \<Rightarrow> bool" where
  "isHost x = (shadowRoot x \<noteq> None)"

definition shadowKids :: "node \<Rightarrow> node list" where
  "shadowKids x = (case shadowRoot x of None \<Rightarrow> [] | Some ks \<Rightarrow> ks)"

definition getAttribute :: "string \<Rightarrow> node \<Rightarrow> string option" where
  "getAttribute name e = map_of (attributes e) name"

fun setAttribute :: "string \<Rightarrow> string \<Rightarrow> node \<Rightarrow> node" where
  "setAttribute name v (Element i t a cs sh) = Element i t (AList.update name v a) cs sh"
| "setAttribute name v (TextNode s) = TextNode s"

fun removeAttribute :: "string \<Rightarrow> node \<Rightarrow> node" where
  "removeAttribute name (Element i t a cs sh) = Element i t (AList.delete name a) cs sh"
| "removeAttribute name (TextNode s) = TextNode s"

text \<open>\<open>element.id\<close>: the \<open>id\<close> attribute, the empty string without one.\<close>

definition elementId :: "node \<Rightarrow> string" where
  "elementId e = (case getAttribute ''id'' e of None \<Rightarrow> [] | Some v \<Rightarrow> v)"

definition hasId :: "string \<Rightarrow> node \<Rightarrow> bool" where
  "hasId ident e = (getAttribute ''id'' e = Some ident)"

fun textContent :: "node \<Rightarrow> string" where
  "textContent (TextNode s) = s"
| "textContent (Element i t a cs sh) = concat (map textContent cs)"

text \<open>Assigning \<open>textContent\<close> replaces all children by one text node (none for the empty string).\<close>

fun setTextContent :: "string \<Rightarrow> node \<Rightarrow> node" where
  "setTextContent s (Element i t a cs sh) = Element i t a (if s = [] then [] else [TextNode s]) sh"
| "setTextContent s (TextNode u) = TextNode s"

fun withChildNodes :: "(node list \<Rightarrow> node list) \<Rightarrow> node \<Rightarrow> node" where
  "withChildNodes g (Element i t a cs sh) = Element i t a (g cs) sh"
| "withChildNodes g (TextNode s) = TextNode s"

fun withShadow :: "(node list \<Rightarrow> node list) \<Rightarrow> node \<Rightarrow> node" where
  "withShadow g (Element i t a cs (Some ks)) = Element i t a cs (Some (g ks))"
| "withShadow g (Element i t a cs None) = Element i t a cs None"
| "withShadow g (TextNode s) = TextNode s"

text \<open>\<open>element.children\<close>: the child nodes that are elements.\<close>

fun children :: "node \<Rightarrow> node list" where
  "children (Element i t a cs sh) = filter isElement cs"
| "children (TextNode s) = []"

text \<open>
  The elements of a node's own tree in document order, the node first; shadow trees are
  not entered. \<open>root.querySelectorAll("*")\<close> is the list of these for the children of
  the root.
\<close>

fun lightElements :: "node \<Rightarrow> node list" where
  "lightElements (TextNode s) = []"
| "lightElements (Element i t a cs sh) = Element i t a cs sh # concat (map lightElements cs)"

definition querySelectorAll :: "node list \<Rightarrow> node list" where
  "querySelectorAll ns = concat (map lightElements ns)"

text \<open>Every element of a page: the trees and all open shadow trees, nested ones too.\<close>

fun allElements :: "node \<Rightarrow> node list" where
  "allElements (TextNode s) = []"
| "allElements (Element i t a cs sh) =
     Element i t a cs sh # concat (map allElements cs)
       @ (case sh of None \<Rightarrow> [] | Some ks \<Rightarrow> concat (map allElements ks))"

definition findElement :: "nat \<Rightarrow> node \<Rightarrow> node option" where
  "findElement n doc = find (\<lambda>e. nidOf e = n) (allElements doc)"

text \<open>
  A change made through a reference to an element: \<open>f\<close> is applied to the element whose
  identity is \<open>n\<close>, wherever it is in the page.
\<close>

fun updateElement :: "nat \<Rightarrow> (node \<Rightarrow> node) \<Rightarrow> node \<Rightarrow> node" where
  "updateElement n f (TextNode s) = TextNode s"
| "updateElement n f (Element i t a cs sh) =
     (let e = Element i t a (map (updateElement n f) cs)
                (case sh of None \<Rightarrow> None | Some ks \<Rightarrow> Some (map (updateElement n f) ks))
      in if i = n then f e else e)"

text \<open>
  A change made to the element that \<open>querySelector\<close> or \<open>getElementById\<close> returns: the
  first element in document order, among the descendants of a root with the child nodes
  \<open>ns\<close>, that satisfies \<open>P\<close> is replaced by the nodes \<open>f\<close> gives for it (none: the element
  is removed). \<open>None\<close> when no element satisfies \<open>P\<close>, that is, when the query returns
  \<open>null\<close>.
\<close>

fun rewriteFirst :: "(node \<Rightarrow> bool) \<Rightarrow> (node \<Rightarrow> node list) \<Rightarrow> node list \<Rightarrow> node list option" where
  "rewriteFirst P f [] = None"
| "rewriteFirst P f (TextNode s # ns) = map_option (Cons (TextNode s)) (rewriteFirst P f ns)"
| "rewriteFirst P f (Element i t a cs sh # ns) =
     (if P (Element i t a cs sh) then Some (f (Element i t a cs sh) @ ns)
      else (case rewriteFirst P f cs of
              Some cs' \<Rightarrow> Some (Element i t a cs' sh # ns)
            | None \<Rightarrow> map_option (Cons (Element i t a cs sh)) (rewriteFirst P f ns)))"

fun mapFirst :: "(node \<Rightarrow> bool) \<Rightarrow> (node \<Rightarrow> node) \<Rightarrow> node list \<Rightarrow> node list" where
  "mapFirst P f [] = []"
| "mapFirst P f (n # ns) = (if P n then f n # ns else n # mapFirst P f ns)"

text \<open>\<open>document.head\<close> and \<open>document.body\<close>: the first such child of the root element.\<close>

definition isHeadElement :: "node \<Rightarrow> bool" where
  "isHeadElement c = (isElement c \<and> tagName c = ''HEAD'')"

definition isBodyElement :: "node \<Rightarrow> bool" where
  "isBodyElement c = (isElement c \<and> (tagName c = ''BODY'' \<or> tagName c = ''FRAMESET''))"

definition documentHead :: "node \<Rightarrow> node option" where
  "documentHead doc = find isHeadElement (childNodes doc)"

definition documentBody :: "node \<Rightarrow> node option" where
  "documentBody doc = find isBodyElement (childNodes doc)"

subsection \<open>getAllShadowRoots\<close>

lemma sum_filter_le: "sum_list (map (f::'a \<Rightarrow> nat) (filter P cs)) \<le> sum_list (map f cs)"
  by (induction cs) auto

lemma size_lightElements: "d \<in> set (lightElements n) \<Longrightarrow> size d \<le> size n"
proof (induction n arbitrary: d)
  case (TextNode s) then show ?case by simp
next
  case (Element i t a cs sh)
  then show ?case
  proof (cases "d = Element i t a cs sh")
    case True then show ?thesis by simp
  next
    case False
    then obtain c where c: "c \<in> set cs" "d \<in> set (lightElements c)" using Element.prems by auto
    then have "size d \<le> size c" using Element.IH(1) by blast
    moreover have "size c \<le> size_list size cs" using c(1) by (simp add: size_list_estimation')
    ultimately show ?thesis by simp
  qed
qed

lemma size_querySelectorAll: "d \<in> set (querySelectorAll ks) \<Longrightarrow> size d \<le> size_list size ks"
  by (auto simp: querySelectorAll_def dest!: size_lightElements intro: order_trans size_list_estimation')

text \<open>
  The work that an element on the queue still stands for: itself, its children, and for
  a host every element of the shadow tree, each of which the loop pushes.
\<close>

function weight :: "node \<Rightarrow> nat" where
  "weight (TextNode s) = 1"
| "weight (Element i t a cs sh) =
     1 + sum_list (map weight cs)
       + (case sh of None \<Rightarrow> 0 | Some ks \<Rightarrow> sum_list (map weight (querySelectorAll ks)))"
  by pat_completeness auto
termination
proof (relation "measure size", goal_cases)
  case 1 show ?case by simp
next
  case (2 i t a cs sh x)
  then show ?case by (simp add: size_list_estimation' less_Suc_eq_le trans_le_add1)
next
  case (3 i t a cs sh ks x)
  then show ?case using size_querySelectorAll[of x ks] by simp
qed

text \<open>
  The \<open>while\<close> loop of \<open>getAllShadowRoots\<close>: \<open>roots\<close> is the set of shadow roots found so
  far, in insertion order, each named by its host; the queue is \<open>elementsToProcess\<close>.
\<close>

function bfs :: "nat list \<Rightarrow> node list \<Rightarrow> nat list" where
  "bfs roots [] = roots"
| "bfs roots (TextNode s # q) = bfs roots q"
| "bfs roots (Element i t a cs sh # q) =
     (case sh of
        Some ks \<Rightarrow>
          if i \<notin> set roots
          then bfs (roots @ [i]) (q @ querySelectorAll ks @ children (Element i t a cs sh))
          else bfs roots (q @ children (Element i t a cs sh))
      | None \<Rightarrow> bfs roots (q @ children (Element i t a cs sh)))"
  by pat_completeness auto
termination
  by (relation "measure (\<lambda>(roots, q). sum_list (map weight q))")
     (auto simp: le_imp_less_Suc sum_filter_le add_le_mono trans_le_add1)

definition getAllShadowRoots :: "node \<Rightarrow> nat list" where
  "getAllShadowRoots element = bfs [] [element]"

subsection \<open>Vocabulary of the page's properties\<close>

text \<open>The elements inside the shadow tree of \<open>x\<close>, at any depth.\<close>

definition below :: "node \<Rightarrow> node set" where
  "below x = (case shadowRoot x of None \<Rightarrow> {} | Some ks \<Rightarrow> (\<Union>k \<in> set ks. set (allElements k)))"


definition pushed :: "nat list \<Rightarrow> node \<Rightarrow> node list" where
  "pushed roots e =
     (if isHost e \<and> nidOf e \<notin> set roots then querySelectorAll (shadowKids e) else []) @ children e"




text \<open>The hosts of a page, in document order.\<close>

definition hosts :: "node \<Rightarrow> node list" where
  "hosts doc = filter isHost (allElements doc)"

section \<open>content.js: the Style Injector\<close>

definition STYLE_OVERRIDE_TAG_ID :: string where
  "STYLE_OVERRIDE_TAG_ID = ''font-direction-changer-style-override''"

definition FONT_LINK_TAG_ID :: string where
  "FONT_LINK_TAG_ID = ''font-direction-changer-font-link''"

text \<open>
  The state of the content script in one page: the page, \<open>window.location.hostname\<close>,
  the seven \<open>currentApplied...\<close> variables, the session storage area (per hostname, the
  \<open>cspBlocked\<close> flag), the pending debounce timer (the time at which it is due) and
  whether the mutation observer is connected. Two fields stand for the platform: the
  identity that the next created element receives, and the values of \<open>Math.random\<close>, as
  the strings \<open>Math.random().toString(36).substring(2, 9)\<close>, with the number of calls made
  so far.
\<close>

record injector =
  documentElement :: node
  pageHostname :: string
  currentApplied :: tuple7
  sessionFlags :: "string \<rightharpoonup> bool"
  mutationDebounceTimeout :: "nat option"
  observing :: bool
  nextNodeId :: nat
  randomSuffixes :: "nat \<Rightarrow> string"
  randomCalls :: nat

datatype completion = Normal | Threw string

text \<open>\<open>String(v)\<close>, as a template literal applies it.\<close>

fun toStr :: "jsval \<Rightarrow> string" where
  "toStr (JStr s) = s"
| "toStr JNull = ''null''"
| "toStr JUndefined = ''undefined''"

subsection \<open>loadGoogleFont\<close>

definition systemFonts :: "string list" where
  "systemFonts = [''Tahoma'', ''Arial'', ''Times New Roman'', ''Georgia'']"

definition variableFontsFullRange :: "(string \<times> string) list" where
  "variableFontsFullRange =
     [(''Vazirmatn'', ''100..900''), (''Noto Sans Arabic'', ''100..900''),
      (''Montserrat'', ''100..900''), (''Cairo'', ''200..1000''), (''Nunito'', ''200..1000''),
      (''Tajawal'', ''200..900''), (''Open Sans'', ''300..800''), (''Changa'', ''200..800'')]"

definition specificWeightsFonts :: "(string \<times> string) list" where
  "specificWeightsFonts =
     [(''Roboto'', ''100;300;400;500;700;900''), (''Lato'', ''100;300;400;700;900''),
      (''Almarai'', ''300;400;700;800'')]"

text \<open>
  \<open>isNaN(parseInt(s))\<close>: after leading white space and an optional sign, and after a
  \<open>0x\<close> prefix if there is one, the text does not start with a digit of the radix.
\<close>

definition isDigit :: "char \<Rightarrow> bool" where
  "isDigit c = (c \<in> set ''0123456789'')"

definition isHexDigit :: "char \<Rightarrow> bool" where
  "isHexDigit c = (c \<in> set ''0123456789abcdefABCDEF'')"

definition parseIntIsNaN :: "string \<Rightarrow> bool" where
  "parseIntIsNaN s =
     (let s1 = dropWhile isWhiteSpace s;
          s2 = (case s1 of [] \<Rightarrow> [] | c # r \<Rightarrow> if c = CHR ''+'' \<or> c = CHR ''-'' then r else s1);
          hex = (startsWith s2 ''0x'' \<or> startsWith s2 ''0X'');
          s3 = (if hex then drop 2 s2 else s2)
      in case s3 of [] \<Rightarrow> True | c # r \<Rightarrow> \<not> (if hex then isHexDigit c else isDigit c))"

text \<open>
  The \<open>wght\<close> parameter of the font URL. The two tables are looked up by own properties
  only: a font called like a property of \<open>Object.prototype\<close> is outside this model.
\<close>

definition weightParam :: "string \<Rightarrow> jsval \<Rightarrow> string" where
  "weightParam fontName requestedWeight =
     (if truthy requestedWeight \<and> trim (toStr requestedWeight) \<noteq> [] then
        (case map_of variableFontsFullRange fontName of
           Some r \<Rightarrow> '':wght@'' @ r
         | None \<Rightarrow>
            (case map_of specificWeightsFonts fontName of
               Some r \<Rightarrow> '':wght@'' @ r
             | None \<Rightarrow>
                if \<not> parseIntIsNaN (toStr requestedWeight) then '':wght@'' @ toStr requestedWeight else []))
      else [])"

definition googleFontUrl :: "string \<Rightarrow> jsval \<Rightarrow> string" where
  "googleFontUrl fontName requestedWeight =
     (let urlFontName = map (\<lambda>c. if c = CHR '' '' then CHR ''+'' else c) fontName;
          url = ''https://fonts.googleapis.com/css2?family='' @ urlFontName
                  @ weightParam fontName requestedWeight
      in url @ (if strIncludes url ''?'' then ''&'' else ''?'') @ ''display=swap'')"

definition sessionRemove :: "injector \<Rightarrow> injector" where
  "sessionRemove st = st\<lparr>sessionFlags := (sessionFlags st)(pageHostname st := None)\<rparr>"

text \<open>
  \<open>loadGoogleFont\<close>. The old link is the first element of the document with the link's
  id (the root element itself is taken not to carry it). \<open>head\<close> is read before the old
  link is removed: should the old link be that very head element, the new link goes into
  a node that is no longer part of the page. The \<open>onload\<close> and \<open>onerror\<close> handlers of
  the new link run later and touch the session area only; they are \<open>fontLinkLoaded\<close>
  and \<open>fontLinkFailed\<close> below.
\<close>

definition loadGoogleFont :: "jsval \<Rightarrow> jsval \<Rightarrow> injector \<Rightarrow> injector" where
  "loadGoogleFont fontName requestedWeight st =
     (let doc = documentElement st;
          head = documentHead doc;
          headIsOldLink = (case head of None \<Rightarrow> False | Some h \<Rightarrow> hasId FONT_LINK_TAG_ID h);
          doc1 = (case rewriteFirst (hasId FONT_LINK_TAG_ID) (\<lambda>e. []) (childNodes doc) of
                    None \<Rightarrow> doc
                  | Some cs \<Rightarrow> withChildNodes (\<lambda>old. cs) doc);
          st1 = st\<lparr>documentElement := doc1\<rparr>
      in if \<not> truthy fontName then sessionRemove st1
         else if toStr fontName \<in> set systemFonts then sessionRemove st1
         else
           let linkElement = Element (nextNodeId st) ''LINK''
                 [(''id'', FONT_LINK_TAG_ID), (''rel'', ''stylesheet''), (''type'', ''text/css''),
                  (''href'', googleFontUrl (toStr fontName) requestedWeight)] [] None;
               doc2 = (case head of
                         None \<Rightarrow> withChildNodes (\<lambda>cs. cs @ [linkElement]) doc1
                       | Some h \<Rightarrow>
                           if headIsOldLink then doc1
                           else withChildNodes
                                  (mapFirst isHeadElement (withChildNodes (\<lambda>cs. cs @ [linkElement])))
                                  doc1)
           in st1\<lparr>documentElement := doc2, nextNodeId := Suc (nextNodeId st)\<rparr>)"

definition fontLinkLoaded :: "injector \<Rightarrow> injector" where
  "fontLinkLoaded st = sessionRemove st"

definition fontLinkFailed :: "injector \<Rightarrow> injector" where
  "fontLinkFailed st = st\<lparr>sessionFlags := (sessionFlags st)(pageHostname st \<mapsto> True)\<rparr>"

subsection \<open>applyStylesToRoot\<close>

text \<open>The root that \<open>applyStylesToRoot\<close> is called with: \<open>document.head\<close>, or the shadow root of a host.\<close>

datatype rootRef = DocumentHead | ShadowRootOf nat

definition sanitizeId :: "string \<Rightarrow> string" where
  "sanitizeId s =
     map (\<lambda>c. if c \<in> set ''abcdefghijklmnopqrstuvwxyz0123456789-_'' then c else CHR ''-'')
       (map asciiLower s)"

text \<open>\<open>currentStyleElementId\<close>: \<open>None\<close> for the document's head, the host for a shadow root.\<close>

definition styleElementId :: "node option \<Rightarrow> string \<Rightarrow> string" where
  "styleElementId shadowHost randomSuffix =
     (let styleElementIdSuffix =
            (case shadowHost of
               None \<Rightarrow> ''document''
             | Some h \<Rightarrow>
                 (if elementId h \<noteq> [] then elementId h
                  else if tagName h \<noteq> [] then tagName h else ''shadow'') @ ''-'' @ randomSuffix)
      in sanitizeId (STYLE_OVERRIDE_TAG_ID @ ''-'' @ styleElementIdSuffix))"

fun joinWith :: "string \<Rightarrow> string list \<Rightarrow> string" where
  "joinWith sep [] = []"
| "joinWith sep [x] = x"
| "joinWith sep (x # y # xs) = x @ sep @ joinWith sep (y # xs)"

definition excludeSelectorsList :: "string list" where
  "excludeSelectorsList =
     [''[class*=\"icon\"]'', ''[class*=\"fa\"]'', ''i'', ''.material-icons'',
      ''.material-symbols-outlined'', ''pre'', ''code'', ''samp'', ''kbd'']"

definition excludeCssSelector :: string where
  "excludeCssSelector = concat (map (\<lambda>selector. '':not('' @ selector @ '')'') excludeSelectorsList)"

definition textAlignSelectors :: "string list" where
  "textAlignSelectors =
     [''body'', '':host'', ''div'', ''p'', ''section'', ''article'', ''main'', ''header'', ''footer'',
      ''nav'', ''aside'', ''h1'', ''h2'', ''h3'', ''h4'', ''h5'', ''h6'', ''li'', ''ul'', ''ol'', ''td'',
      ''th'', ''label'', ''input'', ''textarea'']"

definition targetedTextAlignSelector :: string where
  "targetedTextAlignSelector =
     joinWith '', ''
       (map (\<lambda>sel. sel @ '':not([style*=\"text-align:center\"]):not([align=\"center\"])'')
          textAlignSelectors)"

definition baseElementStyles :: "tuple7 \<Rightarrow> string" where
  "baseElementStyles t =
     (if truthy (font t)
      then ''font-family: \"'' @ toStr (font t) @ ''\", Tahoma, sans-serif !important;'' else [])
     @ (if truthy (fontWeight t) then ''font-weight: '' @ toStr (fontWeight t) @ '' !important;'' else [])
     @ (if truthy (fontSize t) then ''font-size: '' @ toStr (fontSize t) @ ''px !important;'' else [])
     @ (if truthy (lineHeight t) then ''line-height: '' @ toStr (lineHeight t) @ '' !important;'' else [])
     @ (if truthy (letterSpacing t)
        then ''letter-spacing: '' @ toStr (letterSpacing t) @ ''px !important;'' else [])
     @ (if truthy (wordSpacing t)
        then ''word-spacing: '' @ toStr (wordSpacing t) @ ''px !important;'' else [])"

definition formElementFontStyles :: "tuple7 \<Rightarrow> string" where
  "formElementFontStyles t =
     (if truthy (font t)
      then ''font-family: \"'' @ toStr (font t) @ ''\", Tahoma, sans-serif !important;'' else [])
     @ (if truthy (fontWeight t) then ''font-weight: '' @ toStr (fontWeight t) @ '' !important;'' else [])"

definition directionRules :: "tuple7 \<Rightarrow> string" where
  "directionRules t =
     (if direction t = JStr ''rtl'' \<or> direction t = JStr ''ltr'' then
        (let textAlign = (if direction t = JStr ''rtl'' then ''right'' else ''left'') in
         '' :host, * { direction: '' @ toStr (direction t) @ '' !important; } ''
         @ (if targetedTextAlignSelector \<noteq> []
            then '' '' @ targetedTextAlignSelector @ '' { text-align: '' @ textAlign @ '' !important; } ''
            else []))
      else [])"

text \<open>\<open>cssRules\<close>; \<open>isHead\<close> is the test \<open>rootNode === document.head\<close>.\<close>

definition cssRules :: "bool \<Rightarrow> tuple7 \<Rightarrow> string" where
  "cssRules isHead t =
     (if baseElementStyles t \<noteq> [] then
        '' :host '' @ excludeCssSelector @ '', * '' @ excludeCssSelector
          @ '' { '' @ baseElementStyles t @ '' } ''
        @ (if isHead then '' body '' @ excludeCssSelector @ '' { '' @ baseElementStyles t @ '' } ''
           else [])
      else [])
     @ (if formElementFontStyles t \<noteq> [] then
          '' input:not([type=\"button\"]):not([type=\"submit\"]):not([type=\"reset\"]):not([type=\"image\"]), textarea, select { ''
          @ formElementFontStyles t @ '' } ''
        else [])
     @ directionRules t"

text \<open>
  The end of \<open>applyStylesToRoot\<close>, on the child nodes of the root: with rules, the style
  element found under the id gets them as its text unless it has them already, and
  without such an element a new one (identity \<open>fresh\<close>) is created and inserted before
  the first child; without rules, the element found is removed.
\<close>

definition styleInto :: "string \<Rightarrow> string \<Rightarrow> nat \<Rightarrow> node list \<Rightarrow> node list" where
  "styleInto ident css fresh kids =
     (if css \<noteq> [] then
        (case rewriteFirst (hasId ident)
                (\<lambda>e. [if textContent e \<noteq> css then setTextContent css e else e]) kids of
           Some kids' \<Rightarrow> kids'
         | None \<Rightarrow>
             Element fresh ''STYLE'' [(''id'', ident), (''type'', ''text/css'')] [TextNode css] None
               # kids)
      else
        (case rewriteFirst (hasId ident) (\<lambda>e. []) kids of
           Some kids' \<Rightarrow> kids'
         | None \<Rightarrow> kids))"

text \<open>
  \<open>applyStylesToRoot\<close>. \<open>Math.random\<close> is called first, for every root. With
  \<open>document.head\<close> being \<open>null\<close> the call of \<open>querySelector\<close> throws. A shadow root
  whose host is no longer part of the page is changed outside the page.
\<close>

definition applyStylesToRoot :: "rootRef \<Rightarrow> tuple7 \<Rightarrow> injector \<Rightarrow> completion \<times> injector" where
  "applyStylesToRoot rootNode t st =
     (let randomSuffix = randomSuffixes st (randomCalls st);
          st1 = st\<lparr>randomCalls := Suc (randomCalls st)\<rparr>
      in case rootNode of
           DocumentHead \<Rightarrow>
             (case documentHead (documentElement st) of
                None \<Rightarrow> (Threw ''TypeError'', st1)
              | Some h \<Rightarrow>
                  (Normal,
                   st1\<lparr>documentElement :=
                          withChildNodes
                            (mapFirst isHeadElement
                               (withChildNodes
                                  (styleInto (styleElementId None randomSuffix) (cssRules True t)
                                     (nextNodeId st))))
                            (documentElement st),
                        nextNodeId := Suc (nextNodeId st)\<rparr>))
         | ShadowRootOf n \<Rightarrow>
             (case findElement n (documentElement st) of
                None \<Rightarrow> (Normal, st1)
              | Some shadowHost \<Rightarrow>
                  (Normal,
                   st1\<lparr>documentElement :=
                          updateElement n
                            (withShadow
                               (styleInto (styleElementId (Some shadowHost) randomSuffix) (cssRules False t)
                                  (nextNodeId st)))
                            (documentElement st),
                        nextNodeId := Suc (nextNodeId st)\<rparr>)))"

subsection \<open>applyPageStyles and resetPageStyles\<close>

text \<open>The \<open>forEach\<close> over the shadow roots; a call for a shadow root does not throw.\<close>

fun applyToShadowRoots :: "nat list \<Rightarrow> tuple7 \<Rightarrow> injector \<Rightarrow> injector" where
  "applyToShadowRoots [] t st = st"
| "applyToShadowRoots (r # rs) t st =
     applyToShadowRoots rs t (snd (applyStylesToRoot (ShadowRootOf r) t st))"

text \<open>The same change of the \<open>dir\<close> attribute on the root element, the body and every host.\<close>

definition onRootBodyAndHosts :: "(node \<Rightarrow> node) \<Rightarrow> node \<Rightarrow> node" where
  "onRootBodyAndHosts f doc =
     (let doc1 = withChildNodes (mapFirst isBodyElement f) (f doc)
      in fold (\<lambda>r d. updateElement r f d) (getAllShadowRoots doc1) doc1)"

definition applyPageStyles :: "tuple7 \<Rightarrow> injector \<Rightarrow> completion \<times> injector" where
  "applyPageStyles t st =
     (let st1 = loadGoogleFont (font t) (fontWeight t) (st\<lparr>currentApplied := t\<rparr>)
      in case applyStylesToRoot DocumentHead t st1 of
           (Threw e, st2) \<Rightarrow> (Threw e, st2)
         | (Normal, st2) \<Rightarrow>
             let st3 = applyToShadowRoots (getAllShadowRoots (documentElement st2)) t st2
             in (Normal,
                 st3\<lparr>documentElement :=
                        onRootBodyAndHosts
                          (if truthy (direction t) then setAttribute ''dir'' (toStr (direction t))
                           else removeAttribute ''dir'')
                          (documentElement st3)\<rparr>))"

definition nullTuple :: tuple7 where
  "nullTuple = \<lparr>font = JNull, direction = JNull, fontSize = JNull, lineHeight = JNull,
     fontWeight = JNull, letterSpacing = JNull, wordSpacing = JNull\<rparr>"

text \<open>The arguments that \<open>resetPageStyles\<close> passes to \<open>applyStylesToRoot\<close>.\<close>

definition resetTuple :: tuple7 where
  "resetTuple = \<lparr>font = JNull, direction = JNull, fontSize = JStr [], lineHeight = JStr [],
     fontWeight = JStr [], letterSpacing = JNull, wordSpacing = JNull\<rparr>"

fun resetShadowRoots :: "nat list \<Rightarrow> injector \<Rightarrow> injector" where
  "resetShadowRoots [] st = st"
| "resetShadowRoots (r # rs) st =
     (let st1 = snd (applyStylesToRoot (ShadowRootOf r) resetTuple st)
      in resetShadowRoots rs
           (st1\<lparr>documentElement := updateElement r (removeAttribute ''dir'') (documentElement st1)\<rparr>))"

definition resetPageStyles :: "injector \<Rightarrow> completion \<times> injector" where
  "resetPageStyles st =
     (let st1 = loadGoogleFont JNull JNull (st\<lparr>currentApplied := nullTuple\<rparr>)
      in case applyStylesToRoot DocumentHead resetTuple st1 of
           (Threw e, st2) \<Rightarrow> (Threw e, st2)
         | (Normal, st2) \<Rightarrow>
             let doc3 = withChildNodes (mapFirst isBodyElement (removeAttribute ''dir''))
                          (removeAttribute ''dir'' (documentElement st2));
                 st3 = st2\<lparr>documentElement := doc3\<rparr>
             in (Normal, resetShadowRoots (getAllShadowRoots doc3) st3))"

text \<open>The listener of \<open>runtime.onMessage\<close> for the two commands.\<close>

fun onCommand :: "message \<Rightarrow> injector \<Rightarrow> completion \<times> injector" where
  "onCommand (ApplyStyles r) st = applyPageStyles (tupleOf r) st"
| "onCommand ResetStyles st = resetPageStyles st"

subsection \<open>The first load and the mutation observer\<close>

text \<open>The test that guards both the first application and the re-application.\<close>

definition hasOverride :: "tuple7 \<Rightarrow> bool" where
  "hasOverride t =
     (truthy (font t) \<or> truthy (direction t) \<or> truthy (fontSize t) \<or> truthy (lineHeight t)
      \<or> truthy (fontWeight t) \<or> truthy (letterSpacing t) \<or> truthy (wordSpacing t))"

fun storedTuple :: "stored \<Rightarrow> tuple7" where
  "storedTuple (Site r) = tupleOf r"
| "storedTuple (Plain s) =
     \<lparr>font = JUndefined, direction = JUndefined, fontSize = JUndefined, lineHeight = JUndefined,
      fontWeight = JUndefined, letterSpacing = JUndefined, wordSpacing = JUndefined\<rparr>"

text \<open>
  \<open>loadAndApplyInitialStyles\<close>, for the answer of \<open>storageArea.get(null)\<close> (\<open>Inl\<close>: it
  rejects). An exception of \<open>applyPageStyles\<close> is caught and logged; the \<open>finally\<close>
  block starts the observer in every case.
\<close>

definition loadAndApplyInitialStyles :: "string + syncStore \<Rightarrow> injector \<Rightarrow> injector" where
  "loadAndApplyInitialStyles answer st =
     (let st1 =
        (case answer of
           Inl e \<Rightarrow> st
         | Inr data \<Rightarrow>
            (case data (pageHostname st) of
               None \<Rightarrow> st\<lparr>currentApplied := nullTuple\<rparr>
             | Some settings \<Rightarrow>
                 if storedTruthy settings \<and> hasOverride (storedTuple settings)
                 then snd (applyPageStyles (storedTuple settings) st)
                 else st\<lparr>currentApplied := nullTuple\<rparr>))
      in st1\<lparr>observing := True\<rparr>)"

text \<open>\<open>handleMutations\<close> at the time \<open>now\<close>: the pending timer is cleared, a new one set.\<close>

definition handleMutations :: "nat \<Rightarrow> injector \<Rightarrow> injector" where
  "handleMutations now st = st\<lparr>mutationDebounceTimeout := Some (now + 300)\<rparr>"

text \<open>
  The function that \<open>handleMutations\<close> hands to \<open>setTimeout\<close>. The result starts with the
  number of calls of \<open>applyPageStyles\<close> that the callback makes.
\<close>

definition debounceCallback :: "injector \<Rightarrow> nat \<times> completion \<times> injector" where
  "debounceCallback st =
     (if hasOverride (currentApplied st) then (1, applyPageStyles (currentApplied st) st)
      else (0, Normal, st))"

text \<open>
  What the observer is registered for (\<open>childList\<close> and \<open>subtree\<close>, on the root element):
  the child nodes of the root element and of its descendants. Attributes are not
  observed, and a shadow tree is not part of the subtree of its host. Every new element
  has a new identity and the script changes a text only by replacing the child nodes, so
  the script has added or removed a child node exactly when this tree differs.
\<close>

fun observedTree :: "node \<Rightarrow> node" where
  "observedTree (TextNode s) = TextNode s"
| "observedTree (Element i t a cs sh) = Element i t [] (map observedTree cs) None"

text \<open>
  The records of the changes that the script itself made to a page that was \<open>before\<close>
  are delivered when the script's task ends, at the time \<open>now\<close>: the observer, once
  started, calls \<open>handleMutations\<close> for them as for any other change of the page.
\<close>

definition deliverRecords :: "nat \<Rightarrow> node \<Rightarrow> injector \<Rightarrow> injector" where
  "deliverRecords now before st =
     (if observing st \<and> observedTree before \<noteq> observedTree (documentElement st)
      then handleMutations now st else st)"

lemma timer_loadGoogleFont [simp]:
  "mutationDebounceTimeout (loadGoogleFont f w st) = mutationDebounceTimeout st"
  by (simp add: loadGoogleFont_def sessionRemove_def Let_def split: option.splits)

lemma timer_applyStylesToRoot [simp]:
  "mutationDebounceTimeout (snd (applyStylesToRoot r t st)) = mutationDebounceTimeout st"
  by (simp add: applyStylesToRoot_def Let_def split: rootRef.splits option.splits)

lemma timer_applyToShadowRoots [simp]:
  "mutationDebounceTimeout (applyToShadowRoots rs t st) = mutationDebounceTimeout st"
  by (induction rs arbitrary: st) simp_all

lemma timer_applyPageStyles:
  "mutationDebounceTimeout (snd (applyPageStyles t st)) = mutationDebounceTimeout st"
proof -
  let ?st1 = "loadGoogleFont (font t) (fontWeight t) (st\<lparr>currentApplied := t\<rparr>)"
  obtain c st2 where r: "applyStylesToRoot DocumentHead t ?st1 = (c, st2)"
    by (cases "applyStylesToRoot DocumentHead t ?st1")
  have "mutationDebounceTimeout st2 = mutationDebounceTimeout st"
    using timer_applyStylesToRoot[of DocumentHead t ?st1] r by simp
  then show ?thesis using r by (cases c) (simp_all add: applyPageStyles_def Let_def)
qed

lemma timer_debounceCallback:
  "mutationDebounceTimeout (snd (snd (debounceCallback st))) = mutationDebounceTimeout st"
  by (simp add: debounceCallback_def timer_applyPageStyles)

lemma timer_after_callback:
  "(a, c, st1) = debounceCallback st \<Longrightarrow> mutationDebounceTimeout st1 = mutationDebounceTimeout st"
  using timer_debounceCallback[of st] by (metis snd_conv)

text \<open>
  The event loop reaches the time \<open>now\<close>: as long as a timer is pending and due, its
  callback runs, at the time it is due, and the observer is told what the callback
  changed, which sets the next timer. The result counts the callbacks run and the calls
  of \<open>applyPageStyles\<close> they made.
\<close>

function runTimers :: "nat \<Rightarrow> injector \<Rightarrow> (nat \<times> nat) \<times> injector" where
  "runTimers now st =
     (case mutationDebounceTimeout st of
        None \<Rightarrow> ((0, 0), st)
      | Some due \<Rightarrow>
          if due \<le> now
          then (case debounceCallback (st\<lparr>mutationDebounceTimeout := None\<rparr>) of
                  (a, c, st1) \<Rightarrow>
                    (case runTimers now (deliverRecords due (documentElement st) st1) of
                       ((c2, a2), st2) \<Rightarrow> ((Suc c2, a + a2), st2)))
          else ((0, 0), st))"
  by pat_completeness auto
termination
  by (relation "measure (\<lambda>(now, st). case mutationDebounceTimeout st of
                           None \<Rightarrow> 0 | Some due \<Rightarrow> Suc now - due)")
     (auto simp: deliverRecords_def handleMutations_def dest!: timer_after_callback)

declare runTimers.simps [simp del]

text \<open>
  What happens in the page, in order: the observer reports a batch of mutations of the
  page at a time, the event loop reaches a time, a command arrives at a time. A run
  counts the timer callbacks run and the calls of \<open>applyPageStyles\<close> they made.
\<close>

datatype pageEvent = Mutations nat | TimersAt nat | Command nat message

fun pageStep :: "pageEvent \<Rightarrow> injector \<Rightarrow> (nat \<times> nat) \<times> injector" where
  "pageStep (Mutations now) st = ((0, 0), handleMutations now st)"
| "pageStep (TimersAt now) st = runTimers now st"
| "pageStep (Command now m) st =
     ((0, 0), deliverRecords now (documentElement st) (snd (onCommand m st)))"

fun runPage :: "pageEvent list \<Rightarrow> injector \<Rightarrow> (nat \<times> nat) \<times> injector" where
  "runPage [] st = ((0, 0), st)"
| "runPage (ev # evs) st =
     (case pageStep ev st of
        ((c1, a1), st1) \<Rightarrow>
          (case runPage evs st1 of ((c2, a2), st2) \<Rightarrow> ((c1 + c2, a1 + a2), st2)))"

subsection \<open>Vocabulary of the injector's properties\<close>

text \<open>
  A burst: mutation batches at the times \<open>ts\<close>, each one reported after the timers due
  by then have run, and then nothing until the time \<open>quiet\<close>. The burst lies within the
  debounce window when each batch comes less than 300 ms after the one before.
\<close>

definition burstEvents :: "nat list \<Rightarrow> nat \<Rightarrow> pageEvent list" where
  "burstEvents ts quiet = concat (map (\<lambda>now. [TimersAt now, Mutations now]) ts) @ [TimersAt quiet]"

fun withinWindow :: "nat list \<Rightarrow> bool" where
  "withinWindow [] = True"
| "withinWindow [t] = True"
| "withinWindow (t # u # ts) = (t \<le> u \<and> u < t + 300 \<and> withinWindow (u # ts))"

text \<open>An empty field: the empty string, or no value at all.\<close>

definition isEmptyValue :: "jsval \<Rightarrow> bool" where
  "isEmptyValue v = (v = JStr [] \<or> v = JNull \<or> v = JUndefined)"

definition allFieldsEmpty :: "tuple7 \<Rightarrow> bool" where
  "allFieldsEmpty t =
     (isEmptyValue (font t) \<and> isEmptyValue (direction t) \<and> isEmptyValue (fontSize t)
      \<and> isEmptyValue (lineHeight t) \<and> isEmptyValue (fontWeight t)
      \<and> isEmptyValue (letterSpacing t) \<and> isEmptyValue (wordSpacing t))"

text \<open>An event that applies no non-empty tuple.\<close>

fun appliesNothing :: "pageEvent \<Rightarrow> bool" where
  "appliesNothing (Command now (ApplyStyles r)) = allFieldsEmpty (tupleOf r)"
| "appliesNothing ev = True"

text \<open>The style elements among some child nodes, and those that carry given rules.\<close>

definition isStyleElement :: "node \<Rightarrow> bool" where
  "isStyleElement e = (isElement e \<and> tagName e = ''STYLE'')"

text \<open>The number of style elements among the children of the shadow root of the host \<open>n\<close>.\<close>

definition styleCount :: "nat \<Rightarrow> node \<Rightarrow> nat" where
  "styleCount n doc =
     (case findElement n doc of
        None \<Rightarrow> 0
      | Some h \<Rightarrow> length (filter isStyleElement (shadowKids h)))"

subsection \<open>Concrete inputs\<close>

text \<open>
  A page with a shadow root inside a shadow root: the host \<open>div#card\<close> (4) in the body,
  and in its shadow tree the host \<open>x-inner\<close> (6).
\<close>

definition demoDocument :: node where
  "demoDocument =
     Element 1 ''HTML'' []
       [Element 2 ''HEAD'' [] [] None,
        Element 3 ''BODY'' []
          [Element 4 ''DIV'' [(''id'', ''card'')] []
             (Some [Element 5 ''SPAN'' [] [TextNode ''hello''] None,
                    Element 6 ''X-INNER'' [] [] (Some [Element 7 ''P'' [] [] None])])]
          None]
       None"

definition demoInjector :: injector where
  "demoInjector = \<lparr>documentElement = demoDocument, pageHostname = ''example.com'',
     currentApplied = nullTuple, sessionFlags = Map.empty, mutationDebounceTimeout = None,
     observing = False, nextNodeId = 8, randomSuffixes = (\<lambda>k. ''k3j9x2'' @ showNat k),
     randomCalls = 0\<rparr>"


definition sizeTuple :: tuple7 where
  "sizeTuple = nullTuple\<lparr>fontSize := JStr ''18''\<rparr>"

text \<open>
  A page without shadow roots, a record with the web font Vazirmatn only, and that page
  after its first load with the record in the store.
\<close>

definition plainDocument :: node where
  "plainDocument =
     Element 1 ''HTML'' []
       [Element 2 ''HEAD'' [] [] None,
        Element 3 ''BODY'' [] [Element 4 ''P'' [] [TextNode ''hello''] None] None]
       None"



text \<open>The same page after its first load with a record that has the direction \<open>rtl\<close> only.\<close>

definition rtlSite :: siteSettings where
  "rtlSite = \<lparr>font = JStr [], direction = JStr ''rtl'', fontSize = JStr [],
     lineHeight = JStr [], fontWeight = JStr [], letterSpacing = JStr [], wordSpacing = JStr [],
     host = JStr ''example.com''\<rparr>"

definition rtlPage :: injector where
  "rtlPage =
     loadAndApplyInitialStyles (Inr [''example.com'' \<mapsto> Site rtlSite])
       (demoInjector\<lparr>documentElement := plainDocument, nextNodeId := 5\<rparr>)"

definition emptySite :: siteSettings where
  "emptySite = \<lparr>font = JStr [], direction = JStr [], fontSize = JStr [], lineHeight = JStr [],
     fontWeight = JStr [], letterSpacing = JStr [], wordSpacing = JStr [],
     host = JStr ''example.com''\<rparr>"

subsection \<open>Vocabulary of the properties of a styled page\<close>

text \<open>
  What the script has done for a host: the host's identity, its \<open>dir\<close> attribute, and the
  texts of the style elements in its shadow tree. \<open>hostFacts\<close> lists this for every host
  of a page, in document order.
\<close>

type_synonym hostFact = "nat \<times> string option \<times> string list"

definition styleTexts :: "node list \<Rightarrow> string list" where
  "styleTexts ks = map textContent (filter isStyleElement (querySelectorAll ks))"

definition factOf :: "node \<Rightarrow> hostFact" where
  "factOf h = (nidOf h, getAttribute ''dir'' h, styleTexts (shadowKids h))"

definition hostFacts :: "node \<Rightarrow> hostFact list" where
  "hostFacts doc = map factOf (hosts doc)"

definition hostFactsF :: "node list \<Rightarrow> hostFact list" where
  "hostFactsF ns = concat (map hostFacts ns)"




text \<open>
  The two ids of the script are used in the page the way the script uses them: an
  element with the id of the font link is a \<open>link\<close> element, an element whose id starts
  with the id of the style override is a \<open>style\<close> element, and neither has child
  elements or a shadow root.
\<close>

definition leafLike :: "node \<Rightarrow> bool" where
  "leafLike e = (children e = [] \<and> \<not> isHost e)"

definition reservedLeaf :: "node \<Rightarrow> bool" where
  "reservedLeaf e =
     ((hasId FONT_LINK_TAG_ID e \<longrightarrow> leafLike e \<and> tagName e = ''LINK'')
      \<and> (startsWith (elementId e) STYLE_OVERRIDE_TAG_ID \<longrightarrow> leafLike e \<and> tagName e = ''STYLE''))"

definition reservedOk :: "node \<Rightarrow> bool" where
  "reservedOk doc = (\<forall>e \<in> set (allElements doc). reservedLeaf e)"

definition reservedOkF :: "node list \<Rightarrow> bool" where
  "reservedOkF ns = (\<forall>n \<in> set ns. reservedOk n)"





subsection \<open>Two more pages\<close>



section \<open>Properties of the popup\<close>

subsection \<open>Strings and numbers\<close>

lemma trim_id: "\<forall>c\<in>set s. \<not> isWhiteSpace c \<Longrightarrow> trim s = s"
proof (cases s)
  case Nil then show ?thesis by (simp add: trim_def)
next
  case (Cons a as)
  assume h: "\<forall>c\<in>set s. \<not> isWhiteSpace c"
  have 1: "dropWhile isWhiteSpace s = s" using h Cons by simp
  have "rev s \<noteq> []" using Cons by simp
  then obtain b bs where rs: "rev s = b # bs" by (cases "rev s") auto
  have "b \<in> set s" using rs by (metis list.set_intros(1) set_rev)
  then have 2: "dropWhile isWhiteSpace (rev s) = rev s" using h rs by simp
  show ?thesis by (simp add: trim_def 1 2)
qed

lemma digitChar_nws: "d < 10 \<Longrightarrow> \<not> isWhiteSpace (digitChar d)"
proof -
  assume "d < 10"
  then have "d \<in> {0,1,2,3,4,5,6,7,8,9}" by auto
  then show ?thesis by (auto simp: isWhiteSpace_def digitChar_def)
qed

lemma showNat_nws: "\<forall>c\<in>set (showNat n). \<not> isWhiteSpace c"
proof (induction n rule: showNat.induct)
  case (1 n)
  show ?case
  proof (cases "n < 10")
    case True
    then show ?thesis by (subst showNat.simps) (simp add: digitChar_nws)
  next
    case False
    have "n mod 10 < 10" by simp
    then show ?thesis using False 1 by (subst showNat.simps) (simp add: digitChar_nws)
  qed
qed

lemma numToString_nws: "\<forall>c\<in>set (numToString n). \<not> isWhiteSpace c"
proof (cases n)
  case (Fin x)
  have a: "nat \<lfloor>\<bar>x\<bar> * 100\<rfloor> mod 100 div 10 < 10" by (simp add: less_mult_imp_div_less)
  have b: "nat \<lfloor>\<bar>x\<bar> * 100\<rfloor> mod 100 mod 10 < 10" by simp
  have c: "\<not> isWhiteSpace CHR ''-''" "\<not> isWhiteSpace CHR ''.''" by (simp_all add: isWhiteSpace_def)
  show ?thesis using Fin showNat_nws digitChar_nws[OF a] digitChar_nws[OF b] c
    by (auto simp: Let_def)
qed (auto simp: isWhiteSpace_def)

lemma trim_numToString: "trim (numToString n) = numToString n"
  by (rule trim_id) (rule numToString_nws)

lemma cfg_le: "cfgMin f \<le> cfgMax f"
  by (cases f) auto

lemma clampTo_Fin: "clampTo f (Fin x) = Fin (min (cfgMax f) (max (cfgMin f) x))"
  using cfg_le[of f] by (auto simp: clampTo_def Let_def min_def max_def)

lemma clampTo_NegInf: "clampTo f NegInf = Fin (cfgMin f)"
  using cfg_le[of f] by (auto simp: clampTo_def Let_def)

lemma clampTo_PosInf: "clampTo f PosInf = Fin (cfgMax f)"
  by (auto simp: clampTo_def Let_def)

lemma clampTo_bounds:
  assumes "n \<noteq> NaN"
  shows "\<exists>q. clampTo f n = Fin q \<and> cfgMin f \<le> q \<and> q \<le> cfgMax f
          \<and> (jsLess n (Fin (cfgMin f)) \<longrightarrow> q = cfgMin f)
          \<and> (jsLess (Fin (cfgMax f)) n \<longrightarrow> q = cfgMax f)"
proof (cases n)
  case NaN then show ?thesis using assms by simp
next
  case NegInf then show ?thesis using cfg_le[of f] by (simp add: clampTo_NegInf)
next
  case PosInf then show ?thesis using cfg_le[of f] by (simp add: clampTo_PosInf)
next
  case (Fin x) then show ?thesis using cfg_le[of f] by (auto simp: clampTo_Fin)
qed

lemma mathRound_bounds:
  assumes "of_int lo \<le> q" "q \<le> of_int hi"
  shows "of_int lo \<le> (of_int \<lfloor>q + 1 / 2\<rfloor> :: rat) \<and> (of_int \<lfloor>q + 1 / 2\<rfloor> :: rat) \<le> of_int hi"
proof -
  have "lo \<le> \<lfloor>q + 1 / 2\<rfloor>" using assms(1) by (simp add: le_floor_iff)
  moreover have "\<lfloor>q + 1 / 2\<rfloor> \<le> hi" using assms(2) by (simp add: floor_le_iff)
  ultimately show ?thesis by simp
qed

lemma hundredths_bounds:
  fixes q :: rat
  assumes "rat_of_int lo / 100 \<le> q" "q \<le> rat_of_int hi / 100"
  defines "r \<equiv> (if q < 0 then - 1 else 1) * rat_of_int \<lfloor>\<bar>q\<bar> * 100 + 1 / 2\<rfloor> / 100"
  shows "rat_of_int lo / 100 \<le> r \<and> r \<le> rat_of_int hi / 100"
proof (cases "q < 0")
  case False
  then have r: "r = rat_of_int \<lfloor>q * 100 + 1 / 2\<rfloor> / 100" by (simp add: r_def)
  have "rat_of_int lo \<le> q * 100 + 1 / 2" using assms(1) by simp
  then have 1: "lo \<le> \<lfloor>q * 100 + 1 / 2\<rfloor>" by (simp add: le_floor_iff)
  have "q * 100 + 1 / 2 < rat_of_int hi + 1" using assms(2) by simp
  then have 2: "\<lfloor>q * 100 + 1 / 2\<rfloor> \<le> hi" by (simp add: floor_le_iff)
  have "rat_of_int lo \<le> rat_of_int \<lfloor>q * 100 + 1 / 2\<rfloor>" using 1 by (simp only: of_int_le_iff)
  moreover have "rat_of_int \<lfloor>q * 100 + 1 / 2\<rfloor> \<le> rat_of_int hi" using 2 by (simp only: of_int_le_iff)
  ultimately show ?thesis unfolding r by (simp add: divide_right_mono)
next
  case True
  then have r: "r = - (rat_of_int \<lfloor>- q * 100 + 1 / 2\<rfloor> / 100)" by (simp add: r_def)
  have "- q * 100 + 1 / 2 < rat_of_int (- lo) + 1" using assms(1) by simp
  then have 1: "\<lfloor>- q * 100 + 1 / 2\<rfloor> \<le> - lo" by (simp only: floor_le_iff)
  have "rat_of_int (- hi) \<le> - q * 100 + 1 / 2" using assms(2) by simp
  then have 2: "- hi \<le> \<lfloor>- q * 100 + 1 / 2\<rfloor>" by (simp only: le_floor_iff)
  have "rat_of_int \<lfloor>- q * 100 + 1 / 2\<rfloor> \<le> rat_of_int (- lo)" using 1 by (simp only: of_int_le_iff)
  moreover have "rat_of_int (- hi) \<le> rat_of_int \<lfloor>- q * 100 + 1 / 2\<rfloor>" using 2 by (simp only: of_int_le_iff)
  ultimately show ?thesis unfolding r by simp
qed

lemma hundredths_Ints:
  "((if q < 0 then - 1 else 1) * rat_of_int \<lfloor>\<bar>q\<bar> * 100 + 1 / 2\<rfloor> / 100) * 100 \<in> \<int>"
  by simp

lemma toFixed2_bounds:
  assumes "rat_of_int lo / 100 \<le> q" "q \<le> rat_of_int hi / 100" "\<bar>q\<bar> < 10 ^ 21"
  shows "\<exists>r. toFixed2 (Fin q) = Fin r \<and> rat_of_int lo / 100 \<le> r \<and> r \<le> rat_of_int hi / 100 \<and> r * 100 \<in> \<int>"
proof -
  let ?r = "(if q < 0 then - 1 else 1) * rat_of_int \<lfloor>\<bar>q\<bar> * 100 + 1 / 2\<rfloor> / 100"
  have "toFixed2 (Fin q) = Fin ?r" using assms(3) by simp
  moreover have "rat_of_int lo / 100 \<le> ?r \<and> ?r \<le> rat_of_int hi / 100"
    using hundredths_bounds[OF assms(1,2)] .
  moreover have "?r * 100 \<in> \<int>" by (rule hundredths_Ints)
  ultimately show ?thesis by blast
qed

lemma roundFor_bounds:
  assumes "cfgMin f \<le> q" "q \<le> cfgMax f"
  shows "\<exists>r. roundFor f (Fin q) = Fin r \<and> cfgMin f \<le> r \<and> r \<le> cfgMax f
           \<and> (if f = FontSizeInput then r \<in> \<int> else r * 100 \<in> \<int>)"
proof (cases f)
  case FontSizeInput
  then show ?thesis using mathRound_bounds[of 8 q 72] assms by (simp add: roundFor_def)
next
  case LineHeightInput
  then have "\<bar>q\<bar> < 10 ^ 21" using assms by simp
  then show ?thesis using toFixed2_bounds[of 80 q 300] assms LineHeightInput
    by (simp add: roundFor_def del: toFixed2.simps)
next
  case LetterSpacingInput
  then have "\<bar>q\<bar> < 10 ^ 21" using assms by (simp add: abs_if)
  then show ?thesis using toFixed2_bounds[of "-500" q 1000] assms LetterSpacingInput
    by (simp add: roundFor_def del: toFixed2.simps)
next
  case WordSpacingInput
  then have "\<bar>q\<bar> < 10 ^ 21" using assms by (simp add: abs_if)
  then show ?thesis using toFixed2_bounds[of "-1000" q 3000] assms WordSpacingInput
    by (simp add: roundFor_def del: toFixed2.simps)
qed

lemma roundFor_min: "roundFor f (Fin (cfgMin f)) = Fin (cfgMin f)"
  by (cases f; simp add: roundFor_def; rule floor_unique; simp)

lemma roundFor_max: "roundFor f (Fin (cfgMax f)) = Fin (cfgMax f)"
  by (cases f; simp add: roundFor_def; rule floor_unique; simp)

lemma savedTuple_eq: "savedTuple pf ev c = getCurrentUISettings (controlsAfter pf ev c)"
  by (cases ev) (auto simp: getCurrentUISettings_def updateDirectionButtonsVisualState_def
      getCurrentSelectedDirection_def cfgDefault_def trim_def)

subsection \<open>C2: what the number inputs store\<close>

text \<open>
  C2, as stated, fails: the \<open>input\<close> listener of a number input stores the text as
  typed. With the font size input holding \<open>500\<close> (the maximum is 72), the record
  written for \<open>example.com\<close> has \<open>fontSize = "500"\<close>.
\<close>

theorem input_listener_stores_unclamped:
  "snd (snd (onUserEdit demoParse demoHostname (demoEnv ''https://example.com/'')
        (NumberInput FontSizeInput ''500'') demoControls Map.empty)) ''example.com''
   = Some (Site \<lparr>font = JStr ''Vazirmatn'', direction = JStr ''rtl'', fontSize = JStr ''500'',
        lineHeight = JStr [], fontWeight = JStr ''400'', letterSpacing = JStr [],
        wordSpacing = JStr [], host = JStr ''example.com''\<rparr>)"
  by (simp add: onUserEdit_def saveAndApplySettings_def demoEnv_def demoHostname_def
      startsWith_def demoControls_def getCurrentUISettings_def getCurrentSelectedDirection_def
      withHost_def trim_def isWhiteSpace_def Let_def)

text \<open>
  C2, amended: the value that the \<open>change\<close> listener of a numeric field passes on to be
  stored is empty when the trimmed text is empty or \<open>parseFloat\<close> gives NaN; otherwise
  it is the decimal text of a number \<open>q\<close> within the field's bounds, an integer for the
  font size and a multiple of a hundredth for the other fields, and \<open>q\<close> is the minimum
  when the input was below it and the maximum when the input was above it. This holds for
  every \<open>parseFloat\<close>.
\<close>

theorem change_listener_clamps:
  "(pf (trim (inputValue f c)) = NaN \<or> trim (inputValue f c) = [] \<longrightarrow>
      fieldOf f (savedTuple pf (NumberChange f) c) = JStr [])
   \<and> (pf (trim (inputValue f c)) \<noteq> NaN \<and> trim (inputValue f c) \<noteq> [] \<longrightarrow>
        (\<exists>q. fieldOf f (savedTuple pf (NumberChange f) c) = JStr (numToString (Fin q))
           \<and> cfgMin f \<le> q \<and> q \<le> cfgMax f
           \<and> (if f = FontSizeInput then q \<in> \<int> else q * 100 \<in> \<int>)
           \<and> (jsLess (pf (trim (inputValue f c))) (Fin (cfgMin f)) \<longrightarrow> q = cfgMin f)
           \<and> (jsLess (Fin (cfgMax f)) (pf (trim (inputValue f c))) \<longrightarrow> q = cfgMax f)))"
proof -
  let ?n = "pf (trim (inputValue f c))"
  let ?v = "fieldOf f (savedTuple pf (NumberChange f) c)"
  have get: "fieldOf f (getCurrentUISettings (setInputValue f s c)) = JStr (trim s)" for s
    by (cases f) (simp_all add: getCurrentUISettings_def)
  have empty: "?n = NaN \<or> trim (inputValue f c) = [] \<Longrightarrow> ?v = JStr []"
    by (auto simp: changeCommit_def get cfgDefault_def trim_def)
  have num: "\<exists>q. ?v = JStr (numToString (Fin q)) \<and> cfgMin f \<le> q \<and> q \<le> cfgMax f
               \<and> (if f = FontSizeInput then q \<in> \<int> else q * 100 \<in> \<int>)
               \<and> (jsLess ?n (Fin (cfgMin f)) \<longrightarrow> q = cfgMin f)
               \<and> (jsLess (Fin (cfgMax f)) ?n \<longrightarrow> q = cfgMax f)"
    if h: "?n \<noteq> NaN" "trim (inputValue f c) \<noteq> []"
  proof -
    obtain q where q: "clampTo f ?n = Fin q" "cfgMin f \<le> q" "q \<le> cfgMax f"
       "jsLess ?n (Fin (cfgMin f)) \<longrightarrow> q = cfgMin f" "jsLess (Fin (cfgMax f)) ?n \<longrightarrow> q = cfgMax f"
      using clampTo_bounds[OF h(1), of f] by blast
    obtain r where r: "roundFor f (Fin q) = Fin r" "cfgMin f \<le> r" "r \<le> cfgMax f"
       "if f = FontSizeInput then r \<in> \<int> else r * 100 \<in> \<int>"
      using roundFor_bounds[OF q(2,3)] by blast
    have "?v = JStr (numToString (Fin r))"
      using h q(1) r(1)
      by (simp add: changeCommit_def get trim_numToString del: numToString.simps)
    moreover have "jsLess ?n (Fin (cfgMin f)) \<longrightarrow> r = cfgMin f"
      using q(4) r(1) roundFor_min[of f] by auto
    moreover have "jsLess (Fin (cfgMax f)) ?n \<longrightarrow> r = cfgMax f"
      using q(5) r(1) roundFor_max[of f] by auto
    ultimately show ?thesis using r by blast
  qed
  show ?thesis using empty num by blast
qed

text \<open>The font size input holds \<open>" 500 "\<close> at the change event: \<open>72\<close> is passed on.\<close>

theorem change_listener_clamps_witness:
  "demoParse (trim (inputValue FontSizeInput (demoControls\<lparr>fontSizeInput := '' 500 ''\<rparr>))) = Fin 500
   \<and> jsLess (Fin (cfgMax FontSizeInput)) (Fin 500)
   \<and> fieldOf FontSizeInput
        (savedTuple demoParse (NumberChange FontSizeInput) (demoControls\<lparr>fontSizeInput := '' 500 ''\<rparr>))
      = JStr ''72''"
proof -
  let ?c = "demoControls\<lparr>fontSizeInput := '' 500 ''\<rparr>"
  have t: "trim (inputValue FontSizeInput ?c) = ''500''"
    by (simp add: trim_def isWhiteSpace_def)
  have n: "demoParse (trim (inputValue FontSizeInput ?c)) = Fin 500"
    unfolding t by (simp add: demoParse_def)
  have s: "numToString (Fin 72) = ''72''"
    by (simp add: showNat.simps digitChar_def)
  from change_listener_clamps[of demoParse FontSizeInput ?c]
  obtain q where "fieldOf FontSizeInput (savedTuple demoParse (NumberChange FontSizeInput) ?c)
       = JStr (numToString (Fin q))" and "q = cfgMax FontSizeInput"
    unfolding n using t by auto
  then show ?thesis using n s by simp
qed

subsection \<open>C4: a user edit writes the whole tuple and pushes it\<close>

text \<open>
  C4, as stated, fails: when \<open>browser.storage.sync.set\<close> rejects (a quota), the
  listener logs the error and returns; the store is unchanged and no \<open>applyStyles\<close>
  command is sent.
\<close>

theorem edit_not_pushed_when_write_fails:
  "onUserEdit demoParse demoHostname
     ((demoEnv ''https://example.com/'')\<lparr>setRejects := Some ''QUOTA_BYTES_PER_ITEM quota exceeded''\<rparr>)
     (FontSelectChange ''Cairo'') demoControls Map.empty
   = (demoControls\<lparr>fontSelect := ''Cairo'', fontWeightSelect := []\<rparr>,
      [StorageSet ''example.com''
         (withHost (getCurrentUISettings (demoControls\<lparr>fontSelect := ''Cairo'', fontWeightSelect := []\<rparr>))
            (JStr ''example.com'')),
       ConsoleError ''Error saving settings:''],
      Map.empty)"
  by (simp add: onUserEdit_def saveAndApplySettings_def demoEnv_def demoHostname_def startsWith_def
      Let_def)

text \<open>
  C4, amended: on every user edit \<open>ev\<close> to any popup control, when the active tab has a
  non-empty URL that does not start with \<open>chrome://\<close>, \<open>about:\<close> or \<open>edge://\<close> and
  whose hostname is \<open>h\<close>, the listener issues exactly one \<open>set\<close> call, under the key
  \<open>h\<close>, with the record made of all seven controls as they stand after the edit and
  \<open>host = h\<close>. When that call succeeds the store holds the record under \<open>h\<close>, and when
  moreover the tab has a non-zero id the next call is the \<open>applyStyles\<close> command with
  the same record, sent to that tab, the only message sent. Otherwise no message is sent.
\<close>

theorem user_edit_writes_then_pushes:
  assumes "currentTab env = Some tb" and "tabUrl tb = Some u" and "u \<noteq> []"
    and "\<not> startsWith u ''chrome://''" and "\<not> startsWith u ''about:''"
    and "\<not> startsWith u ''edge://''" and "hostnameOf u = Some h"
    and "onUserEdit pf hostnameOf env ev c store = (c', effs, store')"
    and "r = withHost (getCurrentUISettings c') (JStr h)"
  shows "c' = controlsAfter pf ev c
       \<and> filter isStorageSet effs = [StorageSet h r]
       \<and> (setRejects env = None \<longrightarrow> store' = store(h \<mapsto> Site r))
       \<and> (\<forall>i. setRejects env = None \<and> tabId tb = Some i \<and> i \<noteq> 0 \<longrightarrow>
             take 2 effs = [StorageSet h r, SendMessage i (ApplyStyles r)]
           \<and> filter isSendMessage effs = [SendMessage i (ApplyStyles r)])
       \<and> (setRejects env \<noteq> None \<or> tabId tb = None \<or> tabId tb = Some 0 \<longrightarrow>
             filter isSendMessage effs = [])"
  using assms
  by (auto simp: onUserEdit_def saveAndApplySettings_def savedTuple_eq Let_def
      split: option.splits if_splits)

text \<open>
  On \<open>https://example.com/\<close>, in tab 7, the RTL button is released: the record written and
  pushed carries every control, with the direction now empty.
\<close>

theorem user_edit_writes_then_pushes_witness:
  "onUserEdit demoParse demoHostname (demoEnv ''https://example.com/'') BtnRtlClick demoControls Map.empty
   = (demoControls\<lparr>btnRtlActive := False\<rparr>,
      [StorageSet ''example.com''
         \<lparr>font = JStr ''Vazirmatn'', direction = JStr [], fontSize = JStr ''18'',
          lineHeight = JStr [], fontWeight = JStr ''400'', letterSpacing = JStr [],
          wordSpacing = JStr [], host = JStr ''example.com''\<rparr>,
       SendMessage 7 (ApplyStyles
         \<lparr>font = JStr ''Vazirmatn'', direction = JStr [], fontSize = JStr ''18'',
          lineHeight = JStr [], fontWeight = JStr ''400'', letterSpacing = JStr [],
          wordSpacing = JStr [], host = JStr ''example.com''\<rparr>)],
      [''example.com'' \<mapsto> Site
         \<lparr>font = JStr ''Vazirmatn'', direction = JStr [], fontSize = JStr ''18'',
          lineHeight = JStr [], fontWeight = JStr ''400'', letterSpacing = JStr [],
          wordSpacing = JStr [], host = JStr ''example.com''\<rparr>])"
proof -
  let ?env = "demoEnv ''https://example.com/''"
  let ?tb = "\<lparr>tabId = Some 7, tabUrl = Some ''https://example.com/''\<rparr>"
  let ?res = "onUserEdit demoParse demoHostname ?env BtnRtlClick demoControls Map.empty"
  let ?c' = "fst ?res" and ?effs = "fst (snd ?res)" and ?store' = "snd (snd ?res)"
  let ?r = "withHost (getCurrentUISettings ?c') (JStr ''example.com'')"
  have c': "?c' = demoControls\<lparr>btnRtlActive := False\<rparr>"
    by (simp add: onUserEdit_def demoControls_def updateDirectionButtonsVisualState_def
        getCurrentSelectedDirection_def)
  have r: "?r = \<lparr>font = JStr ''Vazirmatn'', direction = JStr [], fontSize = JStr ''18'',
          lineHeight = JStr [], fontWeight = JStr ''400'', letterSpacing = JStr [],
          wordSpacing = JStr [], host = JStr ''example.com''\<rparr>"
    unfolding c' by (simp add: demoControls_def getCurrentUISettings_def withHost_def
        getCurrentSelectedDirection_def trim_def isWhiteSpace_def)
  have "?c' = controlsAfter demoParse BtnRtlClick demoControls
       \<and> filter isStorageSet ?effs = [StorageSet ''example.com'' ?r]
       \<and> (setRejects ?env = None \<longrightarrow> ?store' = Map.empty(''example.com'' \<mapsto> Site ?r))
       \<and> (\<forall>i. setRejects ?env = None \<and> tabId ?tb = Some i \<and> i \<noteq> 0 \<longrightarrow>
             take 2 ?effs = [StorageSet ''example.com'' ?r, SendMessage i (ApplyStyles ?r)]
           \<and> filter isSendMessage ?effs = [SendMessage i (ApplyStyles ?r)])
       \<and> (setRejects ?env \<noteq> None \<or> tabId ?tb = None \<or> tabId ?tb = Some 0 \<longrightarrow>
             filter isSendMessage ?effs = [])"
    by (rule user_edit_writes_then_pushes[of ?env ?tb "''https://example.com/''" demoHostname
          "''example.com''" demoParse BtnRtlClick demoControls Map.empty])
       (simp_all add: demoEnv_def demoHostname_def startsWith_def)
  then have "take 2 ?effs = [StorageSet ''example.com'' ?r, SendMessage 7 (ApplyStyles ?r)]"
      and "?store' = Map.empty(''example.com'' \<mapsto> Site ?r)"
    by (simp_all add: demoEnv_def)
  moreover have "length ?effs = 2"
    by (simp add: onUserEdit_def saveAndApplySettings_def demoEnv_def demoHostname_def startsWith_def
        Let_def)
  ultimately show ?thesis using c' r
    by (metis order_refl prod.collapse take_all)
qed

subsection \<open>C10: nothing happens without a usable tab\<close>

text \<open>
  C10: when the active tab is absent, has no URL, has a URL that begins with
  \<open>chrome://\<close>, \<open>about:\<close> or \<open>edge://\<close>, or has a URL without a parsable hostname,
  \<open>saveAndApplySettings\<close> makes no call at all (no store write, no message) and leaves
  the store as it was.
\<close>

theorem save_is_noop_without_usable_tab:
  "noUsableTab hostnameOf env \<Longrightarrow> saveAndApplySettings hostnameOf env t store = ([], store)"
  by (auto simp: noUsableTab_def saveAndApplySettings_def split: option.splits)

text \<open>The active tab shows \<open>about:blank\<close>.\<close>

theorem save_is_noop_without_usable_tab_witness:
  "noUsableTab demoHostname (demoEnv ''about:blank'')
   \<and> saveAndApplySettings demoHostname (demoEnv ''about:blank'')
        (getCurrentUISettings demoControls) Map.empty = ([], Map.empty)"
  using save_is_noop_without_usable_tab[of demoHostname "demoEnv ''about:blank''"
          "getCurrentUISettings demoControls" Map.empty]
  by (simp add: noUsableTab_def demoEnv_def startsWith_def)

section \<open>Properties of the settings page\<close>

lemma map_of_exportData:
  "map_of (exportData st) k = (if isExportedKey k then map_of st k else None)"
  by (induction st) (auto simp: exportData_def)

lemma getSubstitution_plain:
  "CHR ''$'' \<notin> set r \<Longrightarrow> getSubstitution m b a r = r"
  by (induction m b a r rule: getSubstitution.induct) auto

lemma findSplit_sound: "findSplit p t = Some (b, a) \<Longrightarrow> t = b @ p @ a"
proof (induction t arbitrary: b a)
  case Nil then show ?case by (auto split: if_splits)
next
  case (Cons c s)
  show ?case
  proof (cases "startsWith (c # s) p")
    case True
    then have "b = []" "a = drop (length p) (c # s)" using Cons.prems by auto
    moreover have "take (length p) (c # s) = p" using True by (simp add: startsWith_def)
    ultimately show ?thesis by (metis append_Nil append_take_drop_id)
  next
    case False
    then obtain b' where "findSplit p s = Some (b', a)" "b = c # b'"
      using Cons.prems by (auto split: option.splits)
    then show ?thesis using Cons.IH by auto
  qed
qed

lemma jsReplace_plain:
  "findSplit p t = Some (b, a) \<Longrightarrow> CHR ''$'' \<notin> set r \<Longrightarrow> jsReplace t p r = b @ r @ a"
  by (simp add: jsReplace_def getSubstitution_plain)

subsection \<open>C6: export, then import\<close>

text \<open>
  C6: let the export read the store and find at least one site record or global key, so
  that it produces a document, and let \<open>JSON.parse\<close> read the text that
  \<open>JSON.stringify\<close> printed for that document back as the same object. Then the
  document holds exactly the exported entries and the export leaves the store alone;
  importing the document into any store (no write failure) gives a store in which every
  site record (key with a dot) and every global key of the exported store has the value
  it had there; and importing it right after the export, with no edit in between, gives
  a store with the same keys and the same values as before.
\<close>

theorem export_import_round_trip:
  assumes "getFault env = None" and "setFault env = None"
    and "exportData (storeEntries pg) \<noteq> []"
    and "parse (stringify (exportData (storeEntries pg))) = Inr (DocObject (exportData (storeEntries pg)))"
  shows "downloads (handleExportSettings stringify env pg)
           = downloads pg @ [(EXPORT_FILE_NAME, stringify (exportData (storeEntries pg)))]
       \<and> storeEntries (handleExportSettings stringify env pg) = storeEntries pg
       \<and> (\<forall>k. isExportedKey k \<and> map_of (storeEntries pg) k \<noteq> None \<longrightarrow>
             map_of (storeEntries (handleImportSettings parse env
                        (Some (stringify (exportData (storeEntries pg)))) other)) k
             = map_of (storeEntries pg) k)
       \<and> map_of (storeEntries (handleImportSettings parse env
                        (Some (stringify (exportData (storeEntries pg))))
                        (handleExportSettings stringify env pg)))
         = map_of (storeEntries pg)"
proof -
  have ex: "handleExportSettings stringify env pg =
      displayStatusMessage ''exportSuccessMessage'' ''success'' []
                 (pg\<lparr>downloads := downloads pg
                        @ [(EXPORT_FILE_NAME, stringify (exportData (storeEntries pg)))]\<rparr>)"
    using assms by (simp add: handleExportSettings_def)
  have 1: "downloads (handleExportSettings stringify env pg)
           = downloads pg @ [(EXPORT_FILE_NAME, stringify (exportData (storeEntries pg)))]"
    unfolding ex by (simp add: displayStatusMessage_def split: option.splits)
  have 2: "storeEntries (handleExportSettings stringify env pg) = storeEntries pg"
    unfolding ex by (simp add: displayStatusMessage_def split: option.splits)
  have imp: "storeEntries (handleImportSettings parse env
                        (Some (stringify (exportData (storeEntries pg)))) p)
      = AList.merge (storeEntries p) (exportData (storeEntries pg))" for p :: "('a, 'b) settingsPage"
    using assms by (simp add: handleImportSettings_def storageSet_def)
  have 3: "\<forall>k. isExportedKey k \<and> map_of (storeEntries pg) k \<noteq> None \<longrightarrow>
             map_of (storeEntries (handleImportSettings parse env
                        (Some (stringify (exportData (storeEntries pg)))) other)) k
             = map_of (storeEntries pg) k"
    by (auto simp: imp merge_conv' map_of_exportData map_add_def)
  have 4: "map_of (storeEntries (handleImportSettings parse env
                        (Some (stringify (exportData (storeEntries pg))))
                        (handleExportSettings stringify env pg)))
         = map_of (storeEntries pg)"
    by (rule ext) (auto simp: imp 2 merge_conv' map_of_exportData map_add_def split: option.splits)
  show ?thesis using 1 2 3 4 by blast
qed

text \<open>
  A store with a site record, a theme and a record for \<open>localhost\<close> is exported and the
  document imported into an empty store: the site record and the theme arrive.
\<close>

theorem export_import_round_trip_witness:
  "exportData demoStore = [(''example.com'', Site demoSite), (''theme'', Plain ''dark'')]
   \<and> map_of (storeEntries (handleImportSettings demoRead noFaults
                (Some (demoStringify (exportData demoStore))) (demoPage []))) ''example.com''
     = Some (Site demoSite)
   \<and> map_of (storeEntries (handleImportSettings demoRead noFaults
                (Some (demoStringify (exportData demoStore))) (demoPage []))) ''theme''
     = Some (Plain ''dark'')"
proof -
  let ?pg = "demoPage demoStore :: (stored, stored entries) settingsPage"
  let ?other = "demoPage [] :: (stored, stored entries) settingsPage"
  have e: "exportData demoStore = [(''example.com'', Site demoSite), (''theme'', Plain ''dark'')]"
    by (simp add: exportData_def demoStore_def isExportedKey_def)
  have s: "storeEntries ?pg = demoStore" by (simp add: demoPage_def)
  have "\<forall>k. isExportedKey k \<and> map_of (storeEntries ?pg) k \<noteq> None \<longrightarrow>
             map_of (storeEntries (handleImportSettings demoRead noFaults
                        (Some (demoStringify (exportData (storeEntries ?pg)))) ?other)) k
             = map_of (storeEntries ?pg) k"
    using export_import_round_trip[of noFaults ?pg demoRead demoStringify ?other]
    by (simp add: noFaults_def s e demoRead_def demoStringify_def)
  then have "\<forall>k. isExportedKey k \<and> map_of demoStore k \<noteq> None \<longrightarrow>
             map_of (storeEntries (handleImportSettings demoRead noFaults
                        (Some (demoStringify (exportData demoStore))) ?other)) k
             = map_of demoStore k"
    unfolding s .
  moreover have "isExportedKey ''example.com''" "isExportedKey ''theme''"
    by (simp_all add: isExportedKey_def)
  moreover have "map_of demoStore ''example.com'' = Some (Site demoSite)"
      "map_of demoStore ''theme'' = Some (Plain ''dark'')"
    by (simp_all add: demoStore_def)
  ultimately show ?thesis using e by simp
qed

subsection \<open>C7: a file that does not parse\<close>

text \<open>
  When \<open>JSON.parse\<close> throws on the text of the imported file, the import stops there:
  the store is as before, no \<open>set\<close> call is issued and the page is not reloaded. On a
  page that has its status element, the element shows what \<open>String.prototype.replace\<close>
  makes of the localized \<open>importErrorMessage\<close> string, the placeholder \<open>$ERROR$\<close> and the
  error's message, under the class \<open>error\<close>; for a message without a dollar sign that
  is the string with the message in the placeholder's place.
\<close>

lemma import_parse_error_stops:
  assumes "parse text = Inl message"
  shows "storeEntries (handleImportSettings parse env (Some text) pg) = storeEntries pg
       \<and> setCalls (handleImportSettings parse env (Some text) pg) = setCalls pg
       \<and> reloaded (handleImportSettings parse env (Some text) pg) = reloaded pg
       \<and> (importStatusMessageElement pg \<noteq> None \<longrightarrow>
            importStatusMessageElement (handleImportSettings parse env (Some text) pg)
            = Some \<lparr>statusText =
                       jsReplace (getLocalizedText (currentTranslations pg)
                                    ''importErrorMessage'' ''importErrorMessage'')
                         ''$ERROR$'' message,
                     statusClass = ''status-message visible error''\<rparr>)
       \<and> (\<forall>b a. findSplit ''$ERROR$'' (getLocalizedText (currentTranslations pg)
                                    ''importErrorMessage'' ''importErrorMessage'') = Some (b, a)
                \<and> CHR ''$'' \<notin> set message \<longrightarrow>
              jsReplace (getLocalizedText (currentTranslations pg)
                           ''importErrorMessage'' ''importErrorMessage'') ''$ERROR$'' message
              = b @ message @ a)"
  using assms
  by (auto simp: handleImportSettings_def displayStatusMessage_def asciiUpper_def jsReplace_plain
      split: option.splits)

text \<open>
  C7 does not hold of the code. \<open>displayStatusMessage\<close> hands the error's message to
  \<open>String.prototype.replace\<close> as the replacement string, in which a dollar sign followed
  by an apostrophe stands for the text after the match. The file with the text \<open>$'x\<close>
  does not parse, and the message of its \<open>SyntaxError\<close> quotes the text: the import is
  aborted and the store untouched, but on a page whose translation is
  \<open>Import failed: $ERROR$\<close> the status shown is not that string with the message in the
  placeholder's place; both places where the message has a dollar sign and an
  apostrophe are gone.
\<close>

theorem import_error_message_with_dollar_is_mangled:
  "dollarParse dollarFile = Inl dollarMessage
   \<and> storeEntries (handleImportSettings dollarParse noFaults (Some dollarFile)
        (demoPage demoStore :: (stored, string) settingsPage)) = demoStore
   \<and> setCalls (handleImportSettings dollarParse noFaults (Some dollarFile)
        (demoPage demoStore :: (stored, string) settingsPage)) = []
   \<and> importStatusMessageElement (handleImportSettings dollarParse noFaults (Some dollarFile)
        (demoPage demoStore :: (stored, string) settingsPage))
     = Some \<lparr>statusText = ''Import failed: Unexpected token '' @ [CHR 0x27] @ '', ''
                            @ [CHR 0x22, CHR ''x'', CHR 0x22] @ '' is not valid JSON'',
             statusClass = ''status-message visible error''\<rparr>
   \<and> importStatusMessageElement (handleImportSettings dollarParse noFaults (Some dollarFile)
        (demoPage demoStore :: (stored, string) settingsPage))
     \<noteq> Some \<lparr>statusText = ''Import failed: '' @ dollarMessage,
             statusClass = ''status-message visible error''\<rparr>"
  by (simp add: dollarParse_def dollarFile_def dollarMessage_def handleImportSettings_def
      displayStatusMessage_def getLocalizedText_def demoPage_def demoStore_def
      asciiUpper_def jsReplace_def startsWith_def)

section \<open>Properties of the service worker\<close>



subsection \<open>C5: the push on navigation complete\<close>



section \<open>getAllShadowRoots finds every shadow root\<close>

lemma allElements_isElement: "y \<in> set (allElements n) \<Longrightarrow> isElement y"
  by (induction n arbitrary: y) (auto split: option.splits)

lemma allElements_self: "isElement n \<Longrightarrow> n \<in> set (allElements n)"
  by (cases n) auto



lemma children_sub: "c \<in> set (children x) \<Longrightarrow> c \<in> set (allElements x)"
  by (cases x) (auto intro: allElements_self)

lemma below_sub: "y \<in> below x \<Longrightarrow> y \<in> set (allElements x)"
  by (cases x) (auto simp: below_def split: option.splits)

lemma lightElements_sub: "y \<in> set (lightElements n) \<Longrightarrow> y \<in> set (allElements n)"
  by (induction n arbitrary: y) auto

lemma querySelectorAll_below:
  "shadowRoot x = Some ks \<Longrightarrow> k \<in> set (querySelectorAll ks) \<Longrightarrow> k \<in> below x"
  by (auto simp: below_def querySelectorAll_def dest: lightElements_sub)






lemma pushed_reach: "p \<in> set (pushed roots e) \<Longrightarrow> p \<in> set (allElements e)"
  by (auto simp: pushed_def isHost_def shadowKids_def split: if_splits option.splits
      dest: children_sub querySelectorAll_below below_sub)

lemma pushed_isElement: "p \<in> set (pushed roots e) \<Longrightarrow> isElement p"
  using pushed_reach allElements_isElement by blast









section \<open>Properties of the Style Injector\<close>

subsection \<open>The cache of the applied tuple\<close>

lemma currentApplied_loadGoogleFont [simp]:
  "currentApplied (loadGoogleFont f w st) = currentApplied st"
  by (simp add: loadGoogleFont_def sessionRemove_def Let_def split: option.splits)

lemma currentApplied_applyStylesToRoot [simp]:
  "currentApplied (snd (applyStylesToRoot r t st)) = currentApplied st"
  by (simp add: applyStylesToRoot_def Let_def split: rootRef.splits option.splits)

lemma currentApplied_applyToShadowRoots [simp]:
  "currentApplied (applyToShadowRoots rs t st) = currentApplied st"
  by (induction rs arbitrary: st) simp_all

lemma currentApplied_resetShadowRoots [simp]:
  "currentApplied (resetShadowRoots rs st) = currentApplied st"
  by (induction rs arbitrary: st) (simp_all add: Let_def)

lemma currentApplied_applyPageStyles: "currentApplied (snd (applyPageStyles t st)) = t"
proof -
  let ?st1 = "loadGoogleFont (font t) (fontWeight t) (st\<lparr>currentApplied := t\<rparr>)"
  obtain c st2 where r: "applyStylesToRoot DocumentHead t ?st1 = (c, st2)"
    by (cases "applyStylesToRoot DocumentHead t ?st1")
  have "currentApplied st2 = t"
    using currentApplied_applyStylesToRoot[of DocumentHead t ?st1] r by simp
  then show ?thesis using r by (cases c) (simp_all add: applyPageStyles_def Let_def)
qed

lemma currentApplied_resetPageStyles: "currentApplied (snd (resetPageStyles st)) = nullTuple"
proof -
  let ?st1 = "loadGoogleFont JNull JNull (st\<lparr>currentApplied := nullTuple\<rparr>)"
  obtain c st2 where r: "applyStylesToRoot DocumentHead resetTuple ?st1 = (c, st2)"
    by (cases "applyStylesToRoot DocumentHead resetTuple ?st1")
  have "currentApplied st2 = nullTuple"
    using currentApplied_applyStylesToRoot[of DocumentHead resetTuple ?st1] r by simp
  then show ?thesis using r by (cases c) (simp_all add: resetPageStyles_def Let_def)
qed

lemma empty_not_truthy: "isEmptyValue v \<longleftrightarrow> \<not> truthy v"
  by (cases v) (auto simp: isEmptyValue_def)

lemma allFieldsEmpty_iff: "allFieldsEmpty t \<longleftrightarrow> \<not> hasOverride t"
  by (auto simp: allFieldsEmpty_def hasOverride_def empty_not_truthy)

lemma hasOverride_nullTuple [simp]: "\<not> hasOverride nullTuple"
  by (simp add: hasOverride_def nullTuple_def)

lemma currentApplied_deliverRecords [simp]:
  "currentApplied (deliverRecords now before st) = currentApplied st"
  by (simp add: deliverRecords_def handleMutations_def)

lemma runTimers_not_due:
  assumes "\<forall>due. mutationDebounceTimeout st = Some due \<longrightarrow> now < due"
  shows "runTimers now st = ((0, 0), st)"
proof (cases "mutationDebounceTimeout st")
  case None then show ?thesis by (simp add: runTimers.simps)
next
  case (Some due)
  then have "\<not> due \<le> now" using assms by auto
  then show ?thesis using Some by (simp add: runTimers.simps)
qed

lemma runTimers_idle:
  assumes "\<not> hasOverride (currentApplied st)"
  shows "snd (fst (runTimers now st)) = 0
         \<and> currentApplied (snd (runTimers now st)) = currentApplied st"
proof (cases "mutationDebounceTimeout st")
  case None then show ?thesis by (simp add: runTimers.simps)
next
  case (Some due)
  let ?st = "st\<lparr>mutationDebounceTimeout := None\<rparr>"
  have cb: "debounceCallback ?st = (0, Normal, ?st)"
    using assms by (simp add: debounceCallback_def)
  have dl: "deliverRecords due (documentElement st) ?st = ?st"
    by (simp add: deliverRecords_def)
  have r: "runTimers now ?st = ((0, 0), ?st)" by (simp add: runTimers.simps)
  show ?thesis using Some cb dl r by (simp add: runTimers.simps[of now st])
qed

lemma pageStep_idle:
  assumes "\<not> hasOverride (currentApplied st)" "appliesNothing ev"
  shows "snd (fst (pageStep ev st)) = 0 \<and> \<not> hasOverride (currentApplied (snd (pageStep ev st)))"
proof (cases ev)
  case (Mutations now) then show ?thesis using assms by (simp add: handleMutations_def)
next
  case (TimersAt now)
  then show ?thesis using assms runTimers_idle[of st now] by simp
next
  case (Command now m)
  then show ?thesis using assms
    by (cases m)
       (auto simp: currentApplied_applyPageStyles currentApplied_resetPageStyles allFieldsEmpty_iff)
qed

lemma runPage_idle:
  "\<not> hasOverride (currentApplied st) \<Longrightarrow> \<forall>ev \<in> set evs. appliesNothing ev \<Longrightarrow>
   snd (fst (runPage evs st)) = 0 \<and> \<not> hasOverride (currentApplied (snd (runPage evs st)))"
proof (induction evs arbitrary: st)
  case Nil then show ?case by simp
next
  case (Cons ev evs)
  obtain c1 a1 st1 where s: "pageStep ev st = ((c1, a1), st1)" by (metis prod.collapse)
  obtain c2 a2 st2 where r: "runPage evs st1 = ((c2, a2), st2)" by (metis prod.collapse)
  have 1: "a1 = 0" "\<not> hasOverride (currentApplied st1)"
    using pageStep_idle[of st ev] Cons.prems s by auto
  have 2: "a2 = 0" "\<not> hasOverride (currentApplied st2)"
    using Cons.IH[OF 1(2)] Cons.prems(2) r by auto
  show ?case using s r 1 2 by simp
qed

text \<open>
  The coalescing of a burst as such: while the batches come less than 300 ms apart no
  timer callback runs, and after the last batch one timer is pending, due 300 ms later.
\<close>

lemma burst_pending:
  "withinWindow (t # ts) \<Longrightarrow>
   (\<forall>due. mutationDebounceTimeout st = Some due \<longrightarrow> t < due) \<Longrightarrow>
   runPage (concat (map (\<lambda>now. [TimersAt now, Mutations now]) (t # ts))) st
   = ((0, 0), st\<lparr>mutationDebounceTimeout := Some (last (t # ts) + 300)\<rparr>)"
proof (induction ts arbitrary: t st)
  case Nil
  then show ?case by (simp add: runTimers_not_due handleMutations_def)
next
  case (Cons u ts)
  let ?st1 = "st\<lparr>mutationDebounceTimeout := Some (t + 300)\<rparr>"
  have w: "withinWindow (u # ts)" "u < t + 300" using Cons.prems(1) by auto
  have ih: "runPage (concat (map (\<lambda>now. [TimersAt now, Mutations now]) (u # ts))) ?st1
        = ((0, 0), ?st1\<lparr>mutationDebounceTimeout := Some (last (u # ts) + 300)\<rparr>)"
    using Cons.IH[OF w(1), of ?st1] w(2) by simp
  have first: "pageStep (TimersAt t) st = ((0, 0), st)"
    using Cons.prems(2) by (simp add: runTimers_not_due)
  have second: "pageStep (Mutations t) st = ((0, 0), ?st1)" by (simp add: handleMutations_def)
  have "runPage (concat (map (\<lambda>now. [TimersAt now, Mutations now]) (t # u # ts))) st
        = runPage (TimersAt t # Mutations t
                     # concat (map (\<lambda>now. [TimersAt now, Mutations now]) (u # ts))) st"
    by simp
  also have "\<dots> = ((0, 0), ?st1\<lparr>mutationDebounceTimeout := Some (last (u # ts) + 300)\<rparr>)"
    using first second ih by (simp del: pageStep.simps concat.simps map_eq_Cons_conv list.map)
  finally show ?case by simp
qed

subsection \<open>C8: a burst of mutations\<close>


text \<open>
  On the page \<open>rtlPage\<close>, where the tuple applied at the first load has no web font, the
  re-apply finds the style element of the head as it left it and changes nothing that
  the observer sees: the same burst has triggered one re-apply by 1100 ms, and no timer
  is pending.
\<close>

lemma burst_without_web_font_reapplies_once:
  "fst (runPage (burstEvents [0, 100, 200] 1100) rtlPage) = (1, 1)
   \<and> mutationDebounceTimeout (snd (runPage (burstEvents [0, 100, 200] 1100) rtlPage)) = None"
  by code_simp

subsection \<open>C9: a record with every field empty\<close>

text \<open>
  C9: when the record stored for the page's hostname has its seven override fields
  empty, the first load does what it does without any record: it applies nothing (the
  page, the session flags and the timer are as before), leaves the seven cached fields
  \<open>null\<close> and starts the observer. From there on, whatever mutations the observer
  reports and whenever the timers run, no timer callback re-applies anything, as long as
  every \<open>applyStyles\<close> command that arrives carries only empty fields.
\<close>

theorem empty_record_is_no_record:
  assumes "allFieldsEmpty (tupleOf r)"
  shows "loadAndApplyInitialStyles (Inr (data(pageHostname st \<mapsto> Site r))) st
           = loadAndApplyInitialStyles (Inr (data(pageHostname st := None))) st
       \<and> loadAndApplyInitialStyles (Inr (data(pageHostname st \<mapsto> Site r))) st
           = st\<lparr>currentApplied := nullTuple, observing := True\<rparr>
       \<and> (\<forall>evs. (\<forall>ev \<in> set evs. appliesNothing ev) \<longrightarrow>
             snd (fst (runPage evs
                    (loadAndApplyInitialStyles (Inr (data(pageHostname st \<mapsto> Site r))) st))) = 0)"
proof -
  have n: "\<not> hasOverride (tupleOf r)" using assms by (simp add: allFieldsEmpty_iff)
  have a: "loadAndApplyInitialStyles (Inr (data(pageHostname st \<mapsto> Site r))) st
           = st\<lparr>currentApplied := nullTuple, observing := True\<rparr>"
    using n by (simp add: loadAndApplyInitialStyles_def)
  have b: "loadAndApplyInitialStyles (Inr (data(pageHostname st := None))) st
           = st\<lparr>currentApplied := nullTuple, observing := True\<rparr>"
    by (simp add: loadAndApplyInitialStyles_def)
  have c: "\<forall>evs. (\<forall>ev \<in> set evs. appliesNothing ev) \<longrightarrow>
             snd (fst (runPage evs (st\<lparr>currentApplied := nullTuple, observing := True\<rparr>))) = 0"
    using runPage_idle[of "st\<lparr>currentApplied := nullTuple, observing := True\<rparr>"] by simp
  show ?thesis using a b c by simp
qed

text \<open>
  The store holds a record of empty strings for \<open>example.com\<close>; after the first load a
  mutation is reported and its timer runs.
\<close>

theorem empty_record_is_no_record_witness:
  "allFieldsEmpty (tupleOf emptySite)
   \<and> loadAndApplyInitialStyles (Inr (Map.empty(pageHostname demoInjector \<mapsto> Site emptySite)))
        demoInjector
      = demoInjector\<lparr>currentApplied := nullTuple, observing := True\<rparr>
   \<and> snd (fst (runPage [Mutations 0, TimersAt 300]
        (loadAndApplyInitialStyles (Inr (Map.empty(pageHostname demoInjector \<mapsto> Site emptySite)))
           demoInjector))) = 0"
proof -
  have e: "allFieldsEmpty (tupleOf emptySite)"
    by (simp add: allFieldsEmpty_def tupleOf_def emptySite_def isEmptyValue_def)
  note th = empty_record_is_no_record[OF e, of Map.empty demoInjector]
  have "\<forall>ev \<in> set [Mutations 0, TimersAt 300]. appliesNothing ev" by simp
  then show ?thesis using th e by blast
qed

subsection \<open>C1: applying the same tuple twice\<close>

text \<open>
  C1 does not hold of the code. The id under which \<open>applyStylesToRoot\<close> looks for the
  style element of a shadow root ends in a new value of \<open>Math.random\<close> at every call,
  so the element inserted by one application is not found by the next. On the page
  \<open>demoDocument\<close>, the tuple with the font size 18 applied once leaves one style element
  in the shadow root of \<open>div#card\<close>; applied twice in a row it leaves two.
\<close>

theorem second_apply_duplicates_shadow_style:
  "styleCount 4 (documentElement (snd (applyPageStyles sizeTuple demoInjector))) = 1
   \<and> styleCount 4 (documentElement
         (snd (applyPageStyles sizeTuple (snd (applyPageStyles sizeTuple demoInjector))))) = 2"
  by code_simp

section \<open>The hosts of a page while the script changes it\<close>

subsection \<open>Facts of the hosts, by the structure of the page\<close>

lemma hostFacts_TextNode [simp]: "hostFacts (TextNode s) = []"
  by (simp add: hostFacts_def hosts_def)

lemma hostFactsF_simps [simp]:
  "hostFactsF [] = []"
  "hostFactsF (n # ns) = hostFacts n @ hostFactsF ns"
  "hostFactsF (xs @ ys) = hostFactsF xs @ hostFactsF ys"
  by (simp_all add: hostFactsF_def)




lemma hostFacts_nid:
  "p \<in> set (hostFacts doc) \<Longrightarrow> \<exists>h \<in> set (allElements doc). isHost h \<and> p = factOf h"
  by (auto simp: hostFacts_def hosts_def)


subsection \<open>The script's ids, by the structure of the page\<close>

lemma reservedOk_TextNode [simp]: "reservedOk (TextNode s)"
  by (simp add: reservedOk_def)

lemma reservedOkF_simps [simp]:
  "reservedOkF []"
  "reservedOkF (n # ns) = (reservedOk n \<and> reservedOkF ns)"
  "reservedOkF (xs @ ys) = (reservedOkF xs \<and> reservedOkF ys)"
  by (auto simp: reservedOkF_def)





subsection \<open>The element that a query returns, rewritten\<close>

lemma querySelectorAll_simps [simp]:
  "querySelectorAll [] = []"
  "querySelectorAll (TextNode s # ns) = querySelectorAll ns"
  "querySelectorAll (Element i t a cs sh # ns) =
     Element i t a cs sh # querySelectorAll cs @ querySelectorAll ns"
  by (simp_all add: querySelectorAll_def)






lemma styleTexts_simps [simp]:
  "styleTexts [] = []"
  "styleTexts (TextNode s # ns) = styleTexts ns"
  "styleTexts (Element i t a cs sh # ns) =
     (if t = ''STYLE'' then [concat (map textContent cs)] else []) @ styleTexts cs @ styleTexts ns"
  by (simp_all add: styleTexts_def isStyleElement_def)

lemma styleTexts_append [simp]: "styleTexts (xs @ ys) = styleTexts xs @ styleTexts ys"
  by (simp add: styleTexts_def querySelectorAll_def)



subsection \<open>The first child that is the head or the body, changed\<close>








section \<open>The steps of applyPageStyles on the hosts\<close>

subsection \<open>The style element of a root\<close>









subsection \<open>A change made through a reference to an element\<close>





lemma reservedOkF_map: "\<forall>c \<in> set cs. reservedOk (g c) \<Longrightarrow> reservedOkF (map g cs)"
  by (simp add: reservedOkF_def)








subsection \<open>The two changes that applyPageStyles makes to a host\<close>









section \<open>applyPageStyles on a page with shadow roots\<close>




subsection \<open>The shadow roots\<close>



subsection \<open>The attribute dir\<close>





section \<open>Shadow roots: the direction reaches every host\<close>

subsection \<open>The font link and the style element of the head\<close>








subsection \<open>The rules of a shadow root\<close>




subsection \<open>C3: a shadow root inside a shadow root\<close>







end
